theory Spec2Isabelle
  imports Main "HOL-Library.Word"
begin

section \<open>Workload manifests: data model\<close>

text \<open>
  The Go package \<^verbatim>\<open>manifest\<close> describes a workload by nested structs whose optional
  fields are pointers. A pointer field \<^verbatim>\<open>*T\<close> is an \<open>option\<close>: \<open>None\<close> is \<^verbatim>\<open>nil\<close>.
  Maps and slices can be \<^verbatim>\<open>nil\<close> as well, and the code tests for it
  (\<^verbatim>\<open>b.Args == nil\<close>, \<^verbatim>\<open>hc.Command == nil\<close>), so they are options too: \<open>None\<close> is the
  \<^verbatim>\<open>nil\<close> map or slice, \<open>Some\<close> a map or slice that exists (possibly empty).
  Go strings are byte strings: \<open>string\<close>. \<^verbatim>\<open>aws.StringValue\<close> reads a \<^verbatim>\<open>*string\<close>,
  giving the empty string for \<^verbatim>\<open>nil\<close>.
\<close>

type_synonym strmap = "(string \<rightharpoonup> string) option"

definition StringValue :: "string option \<Rightarrow> string" where
  "StringValue p = (case p of None \<Rightarrow> [] | Some s \<Rightarrow> s)"

text \<open>
  Errors are values. \<^verbatim>\<open>errors.New\<close> sentinels are constructors of their own,
  \<^verbatim>\<open>fmt.Errorf\<close> carries its formatted message, and \<^verbatim>\<open>%w\<close> wraps an inner error.
  The YAML decoder's errors are split the way the code's type switch splits them: a
  \<^verbatim>\<open>*yaml.TypeError\<close> (with its messages) and every other error.
\<close>

datatype error =
    YamlTypeError "string list"
  | YamlError string
  | errUnmarshalBuildOpts
  | errUnmarshalExec
  | ErrInvalidWorkloadType string
  | Errorf string
  | Wrapf string error

fun isTypeError :: "error \<Rightarrow> bool" where
  "isTypeError (YamlTypeError _) = True"
| "isTypeError _ = False"

text \<open>A nil-pointer dereference is a run-time panic, not an error value.\<close>

datatype panic = NilPointerDereference

subsection \<open>Image and build arguments\<close>

record DockerBuildArgs =
  Context :: "string option"
  Dockerfile :: "string option"
  Args :: strmap
  Target :: "string option"
  CacheFrom :: "string list option"

record BuildArgsOrString =
  BuildString :: "string option"
  BuildArgs :: DockerBuildArgs

record Image =
  Build :: BuildArgsOrString
  Location :: "string option"
  DockerLabels :: strmap
  DependsOn :: strmap

definition DockerBuildArgs_isEmpty :: "DockerBuildArgs \<Rightarrow> bool" where
  "DockerBuildArgs_isEmpty b \<longleftrightarrow>
     Context b = None \<and> Dockerfile b = None \<and> Args b = None \<and> Target b = None \<and> CacheFrom b = None"

definition BuildArgsOrString_isEmpty :: "BuildArgsOrString \<Rightarrow> bool" where
  "BuildArgsOrString_isEmpty b \<longleftrightarrow>
     StringValue (BuildString b) = [] \<and> DockerBuildArgs_isEmpty (BuildArgs b)"

definition emptyDockerBuildArgs :: DockerBuildArgs where
  "emptyDockerBuildArgs =
     \<lparr>Context = None, Dockerfile = None, Args = None, Target = None, CacheFrom = None\<rparr>"

definition emptyBuild :: BuildArgsOrString where
  "emptyBuild = \<lparr>BuildString = None, BuildArgs = emptyDockerBuildArgs\<rparr>"

definition emptyImage :: Image where
  "emptyImage = \<lparr>Build = emptyBuild, Location = None, DockerLabels = None, DependsOn = None\<rparr>"

subsection \<open>Container health check\<close>

text \<open>A \<^verbatim>\<open>time.Duration\<close> is a count of nanoseconds (\<^verbatim>\<open>int64\<close>).\<close>

type_synonym Duration = int

definition Second :: Duration where
  "Second = 1000000000"

record ContainerHealthCheck =
  Command :: "string list option"
  Interval :: "Duration option"
  Retries :: "int option"
  Timeout :: "Duration option"
  StartPeriod :: "Duration option"

definition newDefaultContainerHealthCheck :: ContainerHealthCheck where
  "newDefaultContainerHealthCheck =
     \<lparr>Command = Some [''CMD-SHELL'', ''curl -f http://localhost/ || exit 1''],
      Interval = Some (10 * Second),
      Retries = Some 2,
      Timeout = Some (5 * Second),
      StartPeriod = Some (0 * Second)\<rparr>"

text \<open>
  \<^verbatim>\<open>apply\<close> and \<^verbatim>\<open>applyIfNotSet\<close> update the receiver in place, one field after the
  other; the model returns the updated health check.
\<close>

definition apply_hc :: "ContainerHealthCheck \<Rightarrow> ContainerHealthCheck \<Rightarrow> ContainerHealthCheck" where
  "apply_hc hc other =
     (let hc = (if Command other \<noteq> None then hc\<lparr>Command := Command other\<rparr> else hc);
          hc = (if Interval other \<noteq> None then hc\<lparr>Interval := Interval other\<rparr> else hc);
          hc = (if Retries other \<noteq> None then hc\<lparr>Retries := Retries other\<rparr> else hc);
          hc = (if Timeout other \<noteq> None then hc\<lparr>Timeout := Timeout other\<rparr> else hc);
          hc = (if StartPeriod other \<noteq> None then hc\<lparr>StartPeriod := StartPeriod other\<rparr> else hc)
      in hc)"

definition applyIfNotSet :: "ContainerHealthCheck \<Rightarrow> ContainerHealthCheck \<Rightarrow> ContainerHealthCheck" where
  "applyIfNotSet hc other =
     (let hc = (if Command hc = None \<and> Command other \<noteq> None
                then hc\<lparr>Command := Command other\<rparr> else hc);
          hc = (if Interval hc = None \<and> Interval other \<noteq> None
                then hc\<lparr>Interval := Interval other\<rparr> else hc);
          hc = (if Retries hc = None \<and> Retries other \<noteq> None
                then hc\<lparr>Retries := Retries other\<rparr> else hc);
          hc = (if Timeout hc = None \<and> Timeout other \<noteq> None
                then hc\<lparr>Timeout := Timeout other\<rparr> else hc);
          hc = (if StartPeriod hc = None \<and> StartPeriod other \<noteq> None
                then hc\<lparr>StartPeriod := StartPeriod other\<rparr> else hc)
      in hc)"

text \<open>
  The backend service's image: \<^verbatim>\<open>imageWithPortAndHealthcheck\<close> embeds the image with
  its port (the embedded \<^verbatim>\<open>ServiceImageWithPort\<close> is flattened into its two parts, the
  \<^verbatim>\<open>Image\<close> and the \<^verbatim>\<open>Port\<close>). The worker service's image is \<^verbatim>\<open>ImageWithHealthcheck\<close>.
\<close>

record imageWithPortAndHealthcheck =
  Image :: Image
  Port :: "16 word option"
  HealthCheck :: "ContainerHealthCheck option"

record ImageWithHealthcheck =
  Image_w :: Image
  HealthCheck_w :: "ContainerHealthCheck option"

text \<open>The \<^verbatim>\<open>ecs.HealthCheck\<close> that \<^verbatim>\<open>HealthCheckOpts\<close> builds (all its fields are set).\<close>

record ecs_HealthCheck =
  ecs_Command :: "string list"
  ecs_Interval :: int
  ecs_Retries :: int
  ecs_StartPeriod :: int
  ecs_Timeout :: int

text \<open>
  \<^verbatim>\<open>HealthCheckOpts\<close> returns \<^verbatim>\<open>nil\<close> for no health check. Otherwise it builds the
  \<^verbatim>\<open>ecs.HealthCheck\<close>, dereferencing \<^verbatim>\<open>Interval\<close>, \<^verbatim>\<open>Retries\<close>, \<^verbatim>\<open>StartPeriod\<close> and
  \<^verbatim>\<open>Timeout\<close> with no test for \<^verbatim>\<open>nil\<close>: a \<^verbatim>\<open>nil\<close> one panics. \<^verbatim>\<open>aws.StringSlice\<close>
  turns the command into a slice of the same length (empty for \<^verbatim>\<open>nil\<close>). The
  conversion \<^verbatim>\<open>int64(d.Seconds())\<close> of a duration goes through \<^verbatim>\<open>float64\<close> in the Go
  standard library; it is the parameter \<open>seconds\<close>.
\<close>

definition HealthCheckOpts ::
  "(Duration \<Rightarrow> int) \<Rightarrow> imageWithPortAndHealthcheck \<Rightarrow> panic + ecs_HealthCheck option" where
  "HealthCheckOpts seconds i =
     (case HealthCheck i of
        None \<Rightarrow> Inr None
      | Some hc \<Rightarrow>
          (case Interval hc of None \<Rightarrow> Inl NilPointerDereference | Some iv \<Rightarrow>
          (case Retries hc of None \<Rightarrow> Inl NilPointerDereference | Some r \<Rightarrow>
          (case StartPeriod hc of None \<Rightarrow> Inl NilPointerDereference | Some sp \<Rightarrow>
          (case Timeout hc of None \<Rightarrow> Inl NilPointerDereference | Some t \<Rightarrow>
             Inr (Some \<lparr>ecs_Command = (case Command hc of None \<Rightarrow> [] | Some c \<Rightarrow> c),
                        ecs_Interval = seconds iv,
                        ecs_Retries = r,
                        ecs_StartPeriod = seconds sp,
                        ecs_Timeout = seconds t\<rparr>))))))"

subsection \<open>Exactly one image source\<close>

text \<open>
  \<^verbatim>\<open>requiresBuild\<close> returns \<^verbatim>\<open>(bool, error)\<close>; with an error the boolean is \<^verbatim>\<open>false\<close>
  and carries nothing, so the result is a sum.
\<close>

definition errImageSource :: error where
  "errImageSource =
     Errorf ''either \"image.build\" or \"image.location\" needs to be specified in the manifest''"

definition requiresBuild :: "Image \<Rightarrow> error + bool" where
  "requiresBuild img =
     (let noBuild = BuildArgsOrString_isEmpty (Build img);
          noURL = (Location img = None)
      in if noBuild = noURL then Inl errImageSource
         else if Location img = None then Inr True
         else Inr False)"

subsection \<open>Sidecar port mappings\<close>

text \<open>
  \<^verbatim>\<open>strings.Split(s, "/")\<close> of the Go standard library cuts \<open>s\<close> at every separator
  byte and returns the pieces in order, the empty pieces too: a string with \<open>n\<close>
  separators gives \<open>n + 1\<close> pieces, and the empty string gives one empty piece.
  \<open>acc\<close> holds the bytes of the current piece, last byte first.
\<close>

fun split_acc :: "char \<Rightarrow> string \<Rightarrow> string \<Rightarrow> string list" where
  "split_acc c acc [] = [rev acc]"
| "split_acc c acc (x # xs) =
     (if x = c then rev acc # split_acc c [] xs else split_acc c (x # acc) xs)"

definition Split :: "string \<Rightarrow> char \<Rightarrow> string list" where
  "Split s c = split_acc c [] s"

definition defaultSidecarPort :: string where
  "defaultSidecarPort = ''80''"

text \<open>
  \<^verbatim>\<open>parsePortMapping\<close> returns \<^verbatim>\<open>(port, protocol, err)\<close>; with an error both
  pointers are \<^verbatim>\<open>nil\<close>, so the result is a sum of the error and the two pointers.
\<close>

definition parsePortMapping :: "string option \<Rightarrow> error + (string option \<times> string option)" where
  "parsePortMapping s =
     (case s of
        None \<Rightarrow> Inr (Some defaultSidecarPort, None)
      | Some str \<Rightarrow>
          (case Split str (CHR ''/'') of
             [p] \<Rightarrow> Inr (Some p, None)
           | [p, q] \<Rightarrow> Inr (Some p, Some q)
           | _ \<Rightarrow> Inl (Errorf (''cannot parse port mapping from '' @ str))))"

subsection \<open>Build context\<close>

text \<open>
  \<^verbatim>\<open>filepath.Join\<close>, \<^verbatim>\<open>filepath.Dir\<close> and \<^verbatim>\<open>filepath.Clean\<close> belong to the Go
  standard library (the Unix versions are modelled, with separator \<^verbatim>\<open>/\<close>).
  \<^verbatim>\<open>Clean\<close> returns the shortest path equivalent to its argument: it drops empty
  elements and \<^verbatim>\<open>.\<close> elements, cancels an inner \<^verbatim>\<open>..\<close> with the element before it,
  drops a \<^verbatim>\<open>..\<close> that follows the root, and returns \<^verbatim>\<open>.\<close> for an empty result.
  \<open>clean_elem\<close> handles one element; the elements kept so far are held last first.
\<close>

definition clean_elem :: "bool \<Rightarrow> string list \<Rightarrow> string \<Rightarrow> string list" where
  "clean_elem rooted st e =
     (if e = [] \<or> e = ''.'' then st
      else if e = ''..'' then
        (case st of
           [] \<Rightarrow> if rooted then [] else [''..'']
         | t # ts \<Rightarrow> if t = ''..'' then ''..'' # st else ts)
      else e # st)"

fun join_sep :: "string list \<Rightarrow> string" where
  "join_sep [] = []"
| "join_sep [e] = e"
| "join_sep (e # es) = e @ CHR ''/'' # join_sep es"

definition Clean :: "string \<Rightarrow> string" where
  "Clean path =
     (case path of
        [] \<Rightarrow> ''.''
      | c # _ \<Rightarrow>
          (let rooted = (c = CHR ''/'');
               out = join_sep (rev (foldl (clean_elem rooted) [] (Split path (CHR ''/''))))
           in if rooted then CHR ''/'' # out
              else if out = [] then ''.'' else out))"

text \<open>
  \<^verbatim>\<open>Join\<close> skips the leading empty elements, joins the rest with the separator and
  cleans the result; with no non-empty element it returns the empty string.
  \<^verbatim>\<open>Dir\<close> cleans the path up to and including its last separator.
\<close>

definition Join :: "string list \<Rightarrow> string" where
  "Join elem =
     (case dropWhile (\<lambda>e. e = []) elem of
        [] \<Rightarrow> []
      | es \<Rightarrow> Clean (join_sep es))"

definition Dir :: "string \<Rightarrow> string" where
  "Dir path = Clean (rev (dropWhile (\<lambda>c. c \<noteq> CHR ''/'') (rev path)))"

definition dockerfileDefaultName :: string where
  "dockerfileDefaultName = ''Dockerfile''"

definition Image_dockerfile :: "Image \<Rightarrow> string" where
  "Image_dockerfile i =
     (case Dockerfile (BuildArgs (Build i)) of
        Some d \<Rightarrow> d
      | None \<Rightarrow> (case BuildString (Build i) of Some s \<Rightarrow> s | None \<Rightarrow> []))"

definition Image_context :: "Image \<Rightarrow> string" where
  "Image_context i = StringValue (Context (BuildArgs (Build i)))"

definition Image_args :: "Image \<Rightarrow> strmap" where
  "Image_args i = Args (BuildArgs (Build i))"

definition Image_target :: "Image \<Rightarrow> string option" where
  "Image_target i = Target (BuildArgs (Build i))"

definition Image_cacheFrom :: "Image \<Rightarrow> string list option" where
  "Image_cacheFrom i = CacheFrom (BuildArgs (Build i))"

text \<open>
  \<^verbatim>\<open>BuildConfig\<close> starts from the defaults and runs its three \<^verbatim>\<open>if\<close> statements in
  the order of the source, each overwriting both paths.
\<close>

definition BuildConfig :: "Image \<Rightarrow> string \<Rightarrow> DockerBuildArgs" where
  "BuildConfig i rootDirectory =
     (let df = Image_dockerfile i;
          ctx = Image_context i;
          p0 = (Join [rootDirectory, dockerfileDefaultName], rootDirectory);
          p1 = (if df \<noteq> [] \<and> ctx \<noteq> []
                then (Join [rootDirectory, df], Join [rootDirectory, ctx]) else p0);
          p2 = (if df \<noteq> [] \<and> ctx = []
                then (Join [rootDirectory, df], Join [rootDirectory, Dir df]) else p1);
          p3 = (if df = [] \<and> ctx \<noteq> []
                then (Join [rootDirectory, ctx, dockerfileDefaultName], Join [rootDirectory, ctx])
                else p2)
      in \<lparr>Context = Some (snd p3),
          Dockerfile = Some (fst p3),
          Args = Image_args i,
          Target = Image_target i,
          CacheFrom = Image_cacheFrom i\<rparr>)"

subsection \<open>Fields that are a scalar or a structure\<close>

record ExecuteCommandConfig =
  Config_Enable :: "bool option"

record ExecuteCommand =
  Enable :: "bool option"
  Config :: ExecuteCommandConfig


text \<open>
  \<^verbatim>\<open>UnmarshalYAML\<close> receives the decoder as its argument
  \<^verbatim>\<open>unmarshal func(interface{}) error\<close> and calls it on a pointer into the receiver:
  the call may write the pointed value and returns an error or \<^verbatim>\<open>nil\<close>. In the model
  the decoder is one function for each target it is called on, from the value held
  before the call to the value held after it and the error. The receiver is returned
  with the error, since the writes made before an error stay.
\<close>

type_synonym 'a unmarshal = "'a \<Rightarrow> 'a \<times> error option"

definition BuildArgsOrString_UnmarshalYAML ::
  "DockerBuildArgs unmarshal \<Rightarrow> string option unmarshal \<Rightarrow> BuildArgsOrString
     \<Rightarrow> BuildArgsOrString \<times> error option" where
  "BuildArgsOrString_UnmarshalYAML unmarshalArgs unmarshalString b =
     (let (a, err) = unmarshalArgs (BuildArgs b);
          b = b\<lparr>BuildArgs := a\<rparr>
      in if (case err of Some e \<Rightarrow> \<not> isTypeError e | None \<Rightarrow> False) then (b, err)
         else if \<not> DockerBuildArgs_isEmpty (BuildArgs b) then (b\<lparr>BuildString := None\<rparr>, None)
         else (let (s, err2) = unmarshalString (BuildString b)
               in (b\<lparr>BuildString := s\<rparr>,
                   (case err2 of Some _ \<Rightarrow> Some errUnmarshalBuildOpts | None \<Rightarrow> None))))"


subsection \<open>Task, logging, sidecars, network\<close>

text \<open>
  Modelled from the spec: the type \<^verbatim>\<open>Count\<close> and its method \<^verbatim>\<open>IsEmpty\<close> are declared
  outside the available sources (the code builds \<^verbatim>\<open>Count{Value: aws.Int(1)}\<close>, reads
  \<^verbatim>\<open>Count.Autoscaling\<close> and calls \<^verbatim>\<open>envCount.IsEmpty()\<close>). The spec describes the count
  as a fixed replica integer or an autoscaling policy, and the empty count as the one
  with no sub-field set. The policy's sub-fields are optional settings; their names
  are not given by the spec, and only whether they are set matters here.
\<close>

record Autoscaling =
  Range :: "string option"
  CPU_a :: "int option"
  Memory_a :: "int option"
  Requests :: "int option"
  ResponseTime :: "Duration option"

text \<open>
  Modelled from the spec: the count, a fixed replica integer (\<open>Value\<close>, as the
  code sets it) or an autoscaling policy (\<open>Autoscaling\<close>, as the code reads it);
  the declaration is outside the available sources.
\<close>

record Count =
  Value :: "int option"
  Autoscaling :: Autoscaling

text \<open>
  Modelled from the spec: an autoscaling policy (declared outside the available
  sources) is empty when none of its sub-fields is set.
\<close>

definition Autoscaling_IsEmpty :: "Autoscaling \<Rightarrow> bool" where
  "Autoscaling_IsEmpty a \<longleftrightarrow>
     Range a = None \<and> CPU_a a = None \<and> Memory_a a = None \<and> Requests a = None
     \<and> ResponseTime a = None"

text \<open>
  Modelled from the spec: \<^verbatim>\<open>Count.IsEmpty\<close> (declared outside the available
  sources): the empty count has no sub-field set.
\<close>

definition Count_IsEmpty :: "Count \<Rightarrow> bool" where
  "Count_IsEmpty c \<longleftrightarrow> Value c = None \<and> Autoscaling_IsEmpty (Autoscaling c)"

definition emptyAutoscaling :: Autoscaling where
  "emptyAutoscaling =
     \<lparr>Range = None, CPU_a = None, Memory_a = None, Requests = None, ResponseTime = None\<rparr>"

definition emptyCount :: Count where
  "emptyCount = \<lparr>Value = None, Autoscaling = emptyAutoscaling\<rparr>"

text \<open>
  \<^verbatim>\<open>TaskConfig\<close> has the five fields of its declaration and the \<^verbatim>\<open>ExecuteCommand\<close>
  that both default constructors set in it.
\<close>

record TaskConfig =
  CPU :: "int option"
  Memory :: "int option"
  Count :: Count
  Variables :: strmap
  Secrets :: strmap
  ExecuteCommand :: ExecuteCommand

record Logging =
  Image_l :: "string option"
  Destination :: strmap
  EnableMetadata :: "bool option"
  SecretOptions :: strmap
  ConfigFile :: "string option"

record SidecarConfig =
  Port_s :: "string option"
  Image_s :: "string option"
  CredsParam :: "string option"

text \<open>
  \<^verbatim>\<open>vpcConfig\<close> is declared outside the available sources; the code sets its
  \<^verbatim>\<open>Placement\<close>. \<^verbatim>\<open>ImageOverride\<close>, embedded in both service configurations, is
  declared outside them as well and no function here reads or writes it: it is left
  out of the records.
\<close>

record vpcConfig =
  Placement :: "string option"

record NetworkConfig =
  VPC :: "vpcConfig option"

record TopicSubscription =
  Name_t :: string
  Service :: string

record SubscribeConfig =
  Topics :: "TopicSubscription list option"

record Workload =
  Name :: "string option"
  Type :: "string option"

subsection \<open>Backend and worker services\<close>

text \<open>
  The unexported \<^verbatim>\<open>parser\<close> of a service is no data of the manifest. A \<^verbatim>\<open>nil\<close>
  \<^verbatim>\<open>Environments\<close> map is \<open>None\<close>; an environment's entry is a pointer, \<open>Some None\<close>
  when the key is there with \<^verbatim>\<open>nil\<close>.
\<close>

record BackendServiceConfig =
  ImageConfig :: imageWithPortAndHealthcheck
  TaskConfig :: TaskConfig
  Logging :: "Logging option"
  Sidecars :: "(string \<rightharpoonup> SidecarConfig option) option"
  Network :: NetworkConfig

record BackendService =
  Workload :: Workload
  BackendServiceConfig :: BackendServiceConfig
  Environments :: "(string \<rightharpoonup> BackendServiceConfig option) option"

record WorkerServiceConfig =
  ImageConfig_w :: ImageWithHealthcheck
  TaskConfig_w :: TaskConfig
  Logging_w :: "Logging option"
  Sidecars_w :: "(string \<rightharpoonup> SidecarConfig option) option"
  Subscribe :: "SubscribeConfig option"
  Network_w :: "NetworkConfig option"

record WorkerService =
  Workload_w :: Workload
  WorkerServiceConfig :: WorkerServiceConfig
  Environments_w :: "(string \<rightharpoonup> WorkerServiceConfig option) option"

text \<open>
  The constants naming the workload types and the public placement are declared
  outside the available sources. The spec lists the types as web-service,
  backend-service, scheduled-job and worker-service; only that the four differ is
  used.
\<close>

text \<open>Modelled from the spec: the constant \<^verbatim>\<open>LoadBalancedWebServiceType\<close>.\<close>

definition LoadBalancedWebServiceType :: string where
  "LoadBalancedWebServiceType = ''web-service''"

text \<open>Modelled from the spec: the constant \<^verbatim>\<open>BackendServiceType\<close>.\<close>

definition BackendServiceType :: string where
  "BackendServiceType = ''backend-service''"

text \<open>Modelled from the spec: the constant \<^verbatim>\<open>ScheduledJobType\<close>.\<close>

definition ScheduledJobType :: string where
  "ScheduledJobType = ''scheduled-job''"

text \<open>Modelled from the spec: the constant \<^verbatim>\<open>WorkerServiceType\<close>.\<close>

definition WorkerServiceType :: string where
  "WorkerServiceType = ''worker-service''"

text \<open>Modelled from the spec: the constant \<^verbatim>\<open>PublicSubnetPlacement\<close> (public placement).\<close>

definition PublicSubnetPlacement :: string where
  "PublicSubnetPlacement = ''public''"

definition stringP :: "string \<Rightarrow> string option" where
  "stringP s = (if s = [] then None else Some s)"

definition newDefaultTaskConfig :: TaskConfig where
  "newDefaultTaskConfig =
     \<lparr>CPU = Some 256, Memory = Some 512,
      Count = \<lparr>Value = Some 1, Autoscaling = emptyAutoscaling\<rparr>,
      Variables = None, Secrets = None,
      ExecuteCommand = \<lparr>Enable = Some False, Config = \<lparr>Config_Enable = None\<rparr>\<rparr>\<rparr>"

definition newDefaultBackendService :: BackendService where
  "newDefaultBackendService =
     \<lparr>Workload = \<lparr>Name = None, Type = Some BackendServiceType\<rparr>,
      BackendServiceConfig =
        \<lparr>ImageConfig = \<lparr>Image = emptyImage, Port = None, HealthCheck = None\<rparr>,
         TaskConfig = newDefaultTaskConfig,
         Logging = None,
         Sidecars = None,
         Network = \<lparr>VPC = Some \<lparr>Placement = stringP PublicSubnetPlacement\<rparr>\<rparr>\<rparr>,
      Environments = None\<rparr>"

definition newDefaultWorkerService :: WorkerService where
  "newDefaultWorkerService =
     \<lparr>Workload_w = \<lparr>Name = None, Type = Some WorkerServiceType\<rparr>,
      WorkerServiceConfig =
        \<lparr>ImageConfig_w = \<lparr>Image_w = emptyImage, HealthCheck_w = None\<rparr>,
         TaskConfig_w = newDefaultTaskConfig,
         Logging_w = None,
         Sidecars_w = None,
         Subscribe = Some \<lparr>Topics = None\<rparr>,
         Network_w = Some \<lparr>VPC = Some \<lparr>Placement = Some PublicSubnetPlacement\<rparr>\<rparr>\<rparr>,
      Environments_w = None\<rparr>"

definition BackendService_BuildRequired :: "BackendService \<Rightarrow> error + bool" where
  "BackendService_BuildRequired s = requiresBuild (Image (ImageConfig (BackendServiceConfig s)))"

definition WorkerService_BuildRequired :: "WorkerService \<Rightarrow> error + bool" where
  "WorkerService_BuildRequired s = requiresBuild (Image_w (ImageConfig_w (WorkerServiceConfig s)))"

subsection \<open>The generic merge\<close>

text \<open>
  Modelled from the spec: \<^verbatim>\<open>mergo.Merge\<close> with the options \<^verbatim>\<open>WithOverride\<close> and
  \<^verbatim>\<open>WithOverwriteWithEmptyValue\<close> belongs to a third-party library whose code is not
  among the available sources. The spec describes it as a deep, field-by-field merge in
  which a field that the overlay sets (also to an empty value) replaces the base's
  field and a field that the overlay leaves unset keeps the base's value; maps are
  replaced whole, but for the image's \<^verbatim>\<open>DockerLabels\<close> and \<^verbatim>\<open>DependsOn\<close>, which merge
  key by key; a pointer to a struct (logging, health check) is replaced whole.
  A struct held by value is merged field by field. For these struct types the merge
  itself does not fail.
\<close>

definition merge_ptr :: "'a option \<Rightarrow> 'a option \<Rightarrow> 'a option" where
  "merge_ptr dst src = (case src of None \<Rightarrow> dst | Some v \<Rightarrow> Some v)"

text \<open>
  Modelled from the spec: the merge of the image's label and dependency maps (mergo,
  outside the available sources): key by key, an entry of the overlay added or
  replacing the base's, the other entries of the base kept; a \<^verbatim>\<open>nil\<close> overlay map
  changes nothing.
\<close>

definition merge_upsert :: "strmap \<Rightarrow> strmap \<Rightarrow> strmap" where
  "merge_upsert dst src =
     (case src of
        None \<Rightarrow> dst
      | Some ms \<Rightarrow> (case dst of None \<Rightarrow> Some ms | Some md \<Rightarrow> Some (md ++ ms)))"

text \<open>
  Modelled from the spec: the generic merge (mergo, outside the available sources)
  at the struct \<^verbatim>\<open>DockerBuildArgs\<close>, field by field.
\<close>

definition merge_DockerBuildArgs :: "DockerBuildArgs \<Rightarrow> DockerBuildArgs \<Rightarrow> DockerBuildArgs" where
  "merge_DockerBuildArgs dst src =
     \<lparr>Context = merge_ptr (Context dst) (Context src),
      Dockerfile = merge_ptr (Dockerfile dst) (Dockerfile src),
      Args = merge_ptr (Args dst) (Args src),
      Target = merge_ptr (Target dst) (Target src),
      CacheFrom = merge_ptr (CacheFrom dst) (CacheFrom src)\<rparr>"

text \<open>
  Modelled from the spec: the generic merge (mergo, outside the available sources)
  at the struct \<^verbatim>\<open>BuildArgsOrString\<close>, field by field.
\<close>

definition merge_BuildArgsOrString ::
  "BuildArgsOrString \<Rightarrow> BuildArgsOrString \<Rightarrow> BuildArgsOrString" where
  "merge_BuildArgsOrString dst src =
     \<lparr>BuildString = merge_ptr (BuildString dst) (BuildString src),
      BuildArgs = merge_DockerBuildArgs (BuildArgs dst) (BuildArgs src)\<rparr>"

text \<open>
  Modelled from the spec: the generic merge (mergo, outside the available sources)
  at the struct \<^verbatim>\<open>Image\<close>, field by field.
\<close>

definition merge_Image :: "Image \<Rightarrow> Image \<Rightarrow> Image" where
  "merge_Image dst src =
     \<lparr>Build = merge_BuildArgsOrString (Build dst) (Build src),
      Location = merge_ptr (Location dst) (Location src),
      DockerLabels = merge_upsert (DockerLabels dst) (DockerLabels src),
      DependsOn = merge_upsert (DependsOn dst) (DependsOn src)\<rparr>"

text \<open>
  Modelled from the spec: the generic merge (mergo, outside the available sources)
  at the struct \<^verbatim>\<open>Autoscaling\<close>, field by field.
\<close>

definition merge_Autoscaling :: "Autoscaling \<Rightarrow> Autoscaling \<Rightarrow> Autoscaling" where
  "merge_Autoscaling dst src =
     \<lparr>Range = merge_ptr (Range dst) (Range src),
      CPU_a = merge_ptr (CPU_a dst) (CPU_a src),
      Memory_a = merge_ptr (Memory_a dst) (Memory_a src),
      Requests = merge_ptr (Requests dst) (Requests src),
      ResponseTime = merge_ptr (ResponseTime dst) (ResponseTime src)\<rparr>"

text \<open>
  Modelled from the spec: the generic merge (mergo, outside the available sources)
  at the struct \<^verbatim>\<open>Count\<close>, field by field.
\<close>

definition merge_Count :: "Count \<Rightarrow> Count \<Rightarrow> Count" where
  "merge_Count dst src =
     \<lparr>Value = merge_ptr (Value dst) (Value src),
      Autoscaling = merge_Autoscaling (Autoscaling dst) (Autoscaling src)\<rparr>"

text \<open>
  Modelled from the spec: the generic merge (mergo, outside the available sources)
  at the struct \<^verbatim>\<open>ExecuteCommand\<close>, field by field.
\<close>

definition merge_ExecuteCommand :: "ExecuteCommand \<Rightarrow> ExecuteCommand \<Rightarrow> ExecuteCommand" where
  "merge_ExecuteCommand dst src =
     \<lparr>Enable = merge_ptr (Enable dst) (Enable src),
      Config = \<lparr>Config_Enable = merge_ptr (Config_Enable (Config dst)) (Config_Enable (Config src))\<rparr>\<rparr>"

text \<open>
  Modelled from the spec: the generic merge (mergo, outside the available sources)
  at the struct \<^verbatim>\<open>TaskConfig\<close>, field by field.
\<close>

definition merge_TaskConfig :: "TaskConfig \<Rightarrow> TaskConfig \<Rightarrow> TaskConfig" where
  "merge_TaskConfig dst src =
     \<lparr>CPU = merge_ptr (CPU dst) (CPU src),
      Memory = merge_ptr (Memory dst) (Memory src),
      Count = merge_Count (Count dst) (Count src),
      Variables = merge_ptr (Variables dst) (Variables src),
      Secrets = merge_ptr (Secrets dst) (Secrets src),
      ExecuteCommand = merge_ExecuteCommand (ExecuteCommand dst) (ExecuteCommand src)\<rparr>"

text \<open>
  Modelled from the spec: the generic merge (mergo, outside the available sources)
  at the struct \<^verbatim>\<open>Workload\<close>, field by field.
\<close>

definition merge_Workload :: "Workload \<Rightarrow> Workload \<Rightarrow> Workload" where
  "merge_Workload dst src =
     \<lparr>Name = merge_ptr (Name dst) (Name src), Type = merge_ptr (Type dst) (Type src)\<rparr>"

text \<open>
  Modelled from the spec: \<^verbatim>\<open>mergo.Merge\<close> (outside the available sources) called on
  two images with the two options, as \<^verbatim>\<open>transformImage\<close> calls it; it does not fail.
\<close>

definition mergo_Merge_Image :: "Image \<Rightarrow> Image \<Rightarrow> error + Image" where
  "mergo_Merge_Image dst src = Inr (merge_Image dst src)"

text \<open>
  Modelled from the spec: the generic merge (mergo, outside the available sources)
  at the backend service's configuration. \<^verbatim>\<open>BackendService.ApplyEnv\<close> calls the
  merge with the two options only, so the image is merged as any other struct.
\<close>

definition merge_BackendServiceConfig ::
  "BackendServiceConfig \<Rightarrow> BackendServiceConfig \<Rightarrow> BackendServiceConfig" where
  "merge_BackendServiceConfig dst src =
     \<lparr>ImageConfig =
        \<lparr>Image = merge_Image (Image (ImageConfig dst)) (Image (ImageConfig src)),
         Port = merge_ptr (Port (ImageConfig dst)) (Port (ImageConfig src)),
         HealthCheck = merge_ptr (HealthCheck (ImageConfig dst)) (HealthCheck (ImageConfig src))\<rparr>,
      TaskConfig = merge_TaskConfig (TaskConfig dst) (TaskConfig src),
      Logging = merge_ptr (Logging dst) (Logging src),
      Sidecars = merge_ptr (Sidecars dst) (Sidecars src),
      Network = \<lparr>VPC = merge_ptr (VPC (Network dst)) (VPC (Network src))\<rparr>\<rparr>"

text \<open>
  Modelled from the spec: \<^verbatim>\<open>mergo.Merge\<close> (outside the available sources) on two
  backend services, with the two options of \<^verbatim>\<open>BackendService.ApplyEnv\<close>; it does
  not fail.
\<close>

definition mergo_Merge_BackendService ::
  "BackendService \<Rightarrow> BackendService \<Rightarrow> error + BackendService" where
  "mergo_Merge_BackendService dst src =
     Inr \<lparr>Workload = merge_Workload (Workload dst) (Workload src),
          BackendServiceConfig =
            merge_BackendServiceConfig (BackendServiceConfig dst) (BackendServiceConfig src),
          Environments = merge_ptr (Environments dst) (Environments src)\<rparr>"

subsection \<open>The image transformer\<close>

text \<open>
  \<^verbatim>\<open>reflect.Value.IsZero\<close> of a struct holds when every field is zero; of a pointer,
  when it is \<^verbatim>\<open>nil\<close>.
\<close>

definition BuildArgsOrString_IsZero :: "BuildArgsOrString \<Rightarrow> bool" where
  "BuildArgsOrString_IsZero b \<longleftrightarrow> BuildString b = None \<and> DockerBuildArgs_isEmpty (BuildArgs b)"

text \<open>
  \<^verbatim>\<open>transformImage\<close> first runs the default merge on \<^verbatim>\<open>dstImage\<close>, a copy of the
  destination taken with \<^verbatim>\<open>dst.Interface().(Image)\<close>, and never copies it back. The
  copy shares the destination's maps: entries written into a map that exists are
  seen in the destination, while a map that the merge creates for a \<^verbatim>\<open>nil\<close> one stays in
  the copy. The pointers and structs that the merge sets in the copy are not seen.
  Then \<^verbatim>\<open>Build\<close> and \<^verbatim>\<open>Location\<close> of the destination are both set from the source when
  one of the source's two is not zero.
\<close>

definition shared_map :: "strmap \<Rightarrow> strmap \<Rightarrow> strmap" where
  "shared_map before after = (case before of None \<Rightarrow> None | Some _ \<Rightarrow> after)"

definition transformImage :: "Image \<Rightarrow> Image \<Rightarrow> error + Image" where
  "transformImage dst src =
     (case mergo_Merge_Image dst src of
        Inl err \<Rightarrow> Inl err
      | Inr dstImage \<Rightarrow>
          (let dst = dst\<lparr>DockerLabels := shared_map (DockerLabels dst) (DockerLabels dstImage),
                         DependsOn := shared_map (DependsOn dst) (DependsOn dstImage)\<rparr>
           in if \<not> BuildArgsOrString_IsZero (Build src) \<or> Location src \<noteq> None
              then Inr (dst\<lparr>Build := Build src, Location := Location src\<rparr>)
              else Inr dst))"

text \<open>
  Modelled from the spec: the generic merge (mergo, outside the available sources)
  at the worker service's configuration. \<^verbatim>\<open>WorkerService.ApplyEnv\<close> adds
  \<^verbatim>\<open>WithTransformers(workloadTransformer{})\<close>: the merge hands the value of type
  \<^verbatim>\<open>Image\<close> to \<^verbatim>\<open>transformImage\<close>, which is modelled from the source, and returns
  its error.
\<close>

definition merge_WorkerServiceConfig ::
  "WorkerServiceConfig \<Rightarrow> WorkerServiceConfig \<Rightarrow> error + WorkerServiceConfig" where
  "merge_WorkerServiceConfig dst src =
     (case transformImage (Image_w (ImageConfig_w dst)) (Image_w (ImageConfig_w src)) of
        Inl err \<Rightarrow> Inl err
      | Inr img \<Rightarrow>
          Inr \<lparr>ImageConfig_w =
                 \<lparr>Image_w = img,
                  HealthCheck_w =
                    merge_ptr (HealthCheck_w (ImageConfig_w dst)) (HealthCheck_w (ImageConfig_w src))\<rparr>,
               TaskConfig_w = merge_TaskConfig (TaskConfig_w dst) (TaskConfig_w src),
               Logging_w = merge_ptr (Logging_w dst) (Logging_w src),
               Sidecars_w = merge_ptr (Sidecars_w dst) (Sidecars_w src),
               Subscribe = merge_ptr (Subscribe dst) (Subscribe src),
               Network_w = merge_ptr (Network_w dst) (Network_w src)\<rparr>)"

text \<open>
  Modelled from the spec: \<^verbatim>\<open>mergo.Merge\<close> (outside the available sources) on two
  worker services, with the options of \<^verbatim>\<open>WorkerService.ApplyEnv\<close>; it fails when
  the transformer does.
\<close>

definition mergo_Merge_WorkerService ::
  "WorkerService \<Rightarrow> WorkerService \<Rightarrow> error + WorkerService" where
  "mergo_Merge_WorkerService dst src =
     (case merge_WorkerServiceConfig (WorkerServiceConfig dst) (WorkerServiceConfig src) of
        Inl err \<Rightarrow> Inl err
      | Inr c \<Rightarrow>
          Inr \<lparr>Workload_w = merge_Workload (Workload_w dst) (Workload_w src),
               WorkerServiceConfig = c,
               Environments_w = merge_ptr (Environments_w dst) (Environments_w src)\<rparr>)"

subsection \<open>Applying an environment\<close>

text \<open>
  \<^verbatim>\<open>ApplyEnv\<close> has a value receiver: \<open>s\<close> is the callee's copy, which it updates and
  returns. Looking a key up in a \<^verbatim>\<open>nil\<close> map finds nothing.
\<close>

definition BackendService_ApplyEnv :: "BackendService \<Rightarrow> string \<Rightarrow> error + BackendService" where
  "BackendService_ApplyEnv s envName =
     (case (case Environments s of None \<Rightarrow> None | Some m \<Rightarrow> m envName) of
        None \<Rightarrow> Inr s
      | Some None \<Rightarrow> Inr s
      | Some (Some overrideConfig) \<Rightarrow>
          (let envCount = Count (TaskConfig overrideConfig);
               s = (if \<not> Count_IsEmpty envCount
                    then s\<lparr>BackendServiceConfig :=
                           (BackendServiceConfig s)\<lparr>TaskConfig :=
                              (TaskConfig (BackendServiceConfig s))\<lparr>Count := envCount\<rparr>\<rparr>\<rparr>
                    else s)
           in case mergo_Merge_BackendService s
                     \<lparr>Workload = \<lparr>Name = None, Type = None\<rparr>,
                      BackendServiceConfig = overrideConfig,
                      Environments = None\<rparr> of
                Inl err \<Rightarrow> Inl err
              | Inr s \<Rightarrow> Inr (s\<lparr>Environments := None\<rparr>)))"

definition WorkerService_ApplyEnv :: "WorkerService \<Rightarrow> string \<Rightarrow> error + WorkerService" where
  "WorkerService_ApplyEnv s envName =
     (case (case Environments_w s of None \<Rightarrow> None | Some m \<Rightarrow> m envName) of
        None \<Rightarrow> Inr s
      | Some None \<Rightarrow> Inr s
      | Some (Some overrideConfig) \<Rightarrow>
          (let envCount = Count (TaskConfig_w overrideConfig);
               s = (if \<not> Count_IsEmpty envCount
                    then s\<lparr>WorkerServiceConfig :=
                           (WorkerServiceConfig s)\<lparr>TaskConfig_w :=
                              (TaskConfig_w (WorkerServiceConfig s))\<lparr>Count := envCount\<rparr>\<rparr>\<rparr>
                    else s)
           in case mergo_Merge_WorkerService s
                     \<lparr>Workload_w = \<lparr>Name = None, Type = None\<rparr>,
                      WorkerServiceConfig = overrideConfig,
                      Environments_w = None\<rparr> of
                Inl err \<Rightarrow> Inl err
              | Inr s \<Rightarrow> Inr (s\<lparr>Environments_w := None\<rparr>)))"

subsection \<open>Reading a workload\<close>

text \<open>
  \<^verbatim>\<open>yaml.Unmarshal(in, v)\<close> belongs to a third-party library: it decodes the document
  into the value that \<open>v\<close> points to, starting from what \<open>v\<close> holds, or fails.
  \<^verbatim>\<open>UnmarshalWorkload\<close> calls it at four types; the load balanced web service, the
  scheduled job and their default constructors are declared outside the files at
  hand. The record \<open>yaml\<close> holds these parts, which \<^verbatim>\<open>UnmarshalWorkload\<close> takes as a
  parameter.
\<close>

record ('lb, 'job) yaml =
  Unmarshal_Workload :: "string \<Rightarrow> Workload \<Rightarrow> error + Workload"
  Unmarshal_LoadBalancedWebService :: "string \<Rightarrow> 'lb \<Rightarrow> error + 'lb"
  Unmarshal_BackendService :: "string \<Rightarrow> BackendService \<Rightarrow> error + BackendService"
  Unmarshal_ScheduledJob :: "string \<Rightarrow> 'job \<Rightarrow> error + 'job"
  newDefaultLoadBalancedWebService :: 'lb
  newDefaultScheduledJob :: 'job

datatype ('lb, 'job) manifest =
    LoadBalancedWebService 'lb
  | BackendServiceManifest BackendService
  | ScheduledJob 'job

definition UnmarshalWorkload :: "('lb, 'job) yaml \<Rightarrow> string \<Rightarrow> error + ('lb, 'job) manifest" where
  "UnmarshalWorkload y inp =
     (case Unmarshal_Workload y inp \<lparr>Name = None, Type = None\<rparr> of
        Inl err \<Rightarrow> Inl (Wrapf ''unmarshal to workload manifest'' err)
      | Inr am \<Rightarrow>
          (let typeVal = StringValue (Type am)
           in if typeVal = LoadBalancedWebServiceType then
                (case Unmarshal_LoadBalancedWebService y inp (newDefaultLoadBalancedWebService y) of
                   Inl err \<Rightarrow> Inl (Wrapf ''unmarshal to load balanced web service'' err)
                 | Inr m \<Rightarrow> Inr (LoadBalancedWebService m))
              else if typeVal = BackendServiceType then
                (case Unmarshal_BackendService y inp newDefaultBackendService of
                   Inl err \<Rightarrow> Inl (Wrapf ''unmarshal to backend service'' err)
                 | Inr m \<Rightarrow>
                     (case HealthCheck (ImageConfig (BackendServiceConfig m)) of
                        None \<Rightarrow> Inr (BackendServiceManifest m)
                      | Some hc \<Rightarrow>
                          Inr (BackendServiceManifest
                                 (m\<lparr>BackendServiceConfig :=
                                      (BackendServiceConfig m)\<lparr>ImageConfig :=
                                         (ImageConfig (BackendServiceConfig m))\<lparr>HealthCheck :=
                                            Some (applyIfNotSet hc newDefaultContainerHealthCheck)\<rparr>\<rparr>\<rparr>))))
              else if typeVal = ScheduledJobType then
                (case Unmarshal_ScheduledJob y inp (newDefaultScheduledJob y) of
                   Inl err \<Rightarrow> Inl (Wrapf ''unmarshal to scheduled job'' err)
                 | Inr m \<Rightarrow> Inr (ScheduledJob m))
              else Inl (ErrInvalidWorkloadType typeVal)))"

subsection \<open>Example documents\<close>

text \<open>
  The decoders of a given document: \<open>base\<close> decodes it into the base shape and
  \<open>backend\<close> into a backend service; the other two kinds are units here, decoded
  as they are.
\<close>

definition document_yaml ::
  "(Workload \<Rightarrow> error + Workload) \<Rightarrow> (BackendService \<Rightarrow> error + BackendService)
     \<Rightarrow> (unit, unit) yaml" where
  "document_yaml base backend =
     \<lparr>Unmarshal_Workload = (\<lambda>inp. base),
      Unmarshal_LoadBalancedWebService = (\<lambda>inp m. Inr m),
      Unmarshal_BackendService = (\<lambda>inp. backend),
      Unmarshal_ScheduledJob = (\<lambda>inp m. Inr m),
      newDefaultLoadBalancedWebService = (),
      newDefaultScheduledJob = ()\<rparr>"

definition typed :: "string \<Rightarrow> Workload \<Rightarrow> error + Workload" where
  "typed t w = Inr (w\<lparr>Type := Some t\<rparr>)"

text \<open>
  A document with the name \<^verbatim>\<open>api\<close> and the type of a backend service, whose build
  field is a sequence: neither a map nor a string, so that decoding the backend
  service fails in the build field.
\<close>

definition sequence_build_yaml :: "(unit, unit) yaml" where
  "sequence_build_yaml =
     document_yaml
       (\<lambda>w. Inr (w\<lparr>Name := Some ''api'', Type := Some BackendServiceType\<rparr>))
       (\<lambda>m. case snd (BuildArgsOrString_UnmarshalYAML
                    (\<lambda>a. (a, Some (YamlTypeError
                       [''cannot unmarshal !!seq into manifest.DockerBuildArgs''])))
                    (\<lambda>s. (s, Some (YamlTypeError [''cannot unmarshal !!seq into string''])))
                    (Build (Image (ImageConfig (BackendServiceConfig m))))) of
          Some err \<Rightarrow> Inl err
        | None \<Rightarrow> Inr m)"

text \<open>
  A backend service's document whose health check gives the retries only,
  \<^verbatim>\<open>{type: ..., image: {healthcheck: {retries: 3}}}\<close>, and the service it is read as.
\<close>

definition retries_only :: ContainerHealthCheck where
  "retries_only =
     \<lparr>Command = None, Interval = None, Retries = Some 3, Timeout = None, StartPeriod = None\<rparr>"

definition retries_only_yaml :: "(unit, unit) yaml" where
  "retries_only_yaml =
     document_yaml (typed BackendServiceType)
       (\<lambda>m. Inr (m\<lparr>BackendServiceConfig :=
          (BackendServiceConfig m)\<lparr>ImageConfig :=
             (ImageConfig (BackendServiceConfig m))\<lparr>HealthCheck := Some retries_only\<rparr>\<rparr>\<rparr>))"

definition retries_only_service :: BackendService where
  "retries_only_service =
     newDefaultBackendService\<lparr>BackendServiceConfig :=
       (BackendServiceConfig newDefaultBackendService)\<lparr>ImageConfig :=
          \<lparr>Image = emptyImage, Port = None,
           HealthCheck =
             Some \<lparr>Command = Some [''CMD-SHELL'', ''curl -f http://localhost/ || exit 1''],
                   Interval = Some (10 * Second), Retries = Some 3,
                   Timeout = Some (5 * Second), StartPeriod = Some 0\<rparr>\<rparr>\<rparr>\<rparr>"

subsection \<open>Zero values\<close>

text \<open>
  The zero values of the configurations: what an environment's block is before the
  fields that the document gives are decoded into it.
\<close>

definition emptyTaskConfig :: TaskConfig where
  "emptyTaskConfig =
     \<lparr>CPU = None, Memory = None, Count = emptyCount, Variables = None, Secrets = None,
      ExecuteCommand = \<lparr>Enable = None, Config = \<lparr>Config_Enable = None\<rparr>\<rparr>\<rparr>"

definition emptyBackendServiceConfig :: BackendServiceConfig where
  "emptyBackendServiceConfig =
     \<lparr>ImageConfig = \<lparr>Image = emptyImage, Port = None, HealthCheck = None\<rparr>,
      TaskConfig = emptyTaskConfig, Logging = None, Sidecars = None,
      Network = \<lparr>VPC = None\<rparr>\<rparr>"

definition emptyWorkerServiceConfig :: WorkerServiceConfig where
  "emptyWorkerServiceConfig =
     \<lparr>ImageConfig_w = \<lparr>Image_w = emptyImage, HealthCheck_w = None\<rparr>,
      TaskConfig_w = emptyTaskConfig, Logging_w = None, Sidecars_w = None,
      Subscribe = None, Network_w = None\<rparr>"

subsection \<open>Example manifests\<close>

text \<open>
  A backend service built from \<^verbatim>\<open>./Dockerfile\<close> whose \<^verbatim>\<open>prod\<close> environment uses the
  existing image \<^verbatim>\<open>nginx\<close> instead:
  \<^verbatim>\<open>{name: api, type: ..., image: {build: {dockerfile: ./Dockerfile}},
     environments: {prod: {image: {location: nginx}}}}\<close>.
\<close>

definition location_overlay :: BackendServiceConfig where
  "location_overlay =
     emptyBackendServiceConfig\<lparr>ImageConfig :=
       \<lparr>Image = emptyImage\<lparr>Location := Some ''nginx''\<rparr>, Port = None, HealthCheck = None\<rparr>\<rparr>"

definition dockerfile_build :: BuildArgsOrString where
  "dockerfile_build =
     emptyBuild\<lparr>BuildArgs := emptyDockerBuildArgs\<lparr>Dockerfile := Some ''./Dockerfile''\<rparr>\<rparr>"

definition built_service :: BackendService where
  "built_service =
     newDefaultBackendService
       \<lparr>Workload := \<lparr>Name = Some ''api'', Type = Some BackendServiceType\<rparr>,
        BackendServiceConfig :=
          (BackendServiceConfig newDefaultBackendService)\<lparr>ImageConfig :=
             \<lparr>Image = emptyImage\<lparr>Build := dockerfile_build\<rparr>, Port = None, HealthCheck = None\<rparr>\<rparr>,
        Environments := Some [''prod'' \<mapsto> Some location_overlay]\<rparr>"

text \<open>
  A task with three replicas, an overlay \<^verbatim>\<open>test\<close> that sets the CPU only, and an
  overlay \<^verbatim>\<open>prod\<close> whose count is an autoscaling range.
\<close>

definition three_replicas :: TaskConfig where
  "three_replicas = newDefaultTaskConfig\<lparr>Count := \<lparr>Value = Some 3, Autoscaling = emptyAutoscaling\<rparr>\<rparr>"

definition cpu_overlay :: TaskConfig where
  "cpu_overlay = emptyTaskConfig\<lparr>CPU := Some 1024\<rparr>"

definition range_count :: Count where
  "range_count = \<lparr>Value = None, Autoscaling = emptyAutoscaling\<lparr>Range := Some ''1-10''\<rparr>\<rparr>"

definition range_overlay :: TaskConfig where
  "range_overlay = emptyTaskConfig\<lparr>Count := range_count\<rparr>"

definition replicated_backend :: BackendService where
  "replicated_backend =
     newDefaultBackendService
       \<lparr>BackendServiceConfig :=
          (BackendServiceConfig newDefaultBackendService)\<lparr>TaskConfig := three_replicas\<rparr>,
        Environments :=
          Some [''test'' \<mapsto> Some (emptyBackendServiceConfig\<lparr>TaskConfig := cpu_overlay\<rparr>),
                ''prod'' \<mapsto> Some (emptyBackendServiceConfig\<lparr>TaskConfig := range_overlay\<rparr>)]\<rparr>"

definition replicated_worker :: WorkerService where
  "replicated_worker =
     newDefaultWorkerService
       \<lparr>WorkerServiceConfig :=
          (WorkerServiceConfig newDefaultWorkerService)\<lparr>TaskConfig_w := three_replicas\<rparr>,
        Environments_w :=
          Some [''test'' \<mapsto> Some (emptyWorkerServiceConfig\<lparr>TaskConfig_w := cpu_overlay\<rparr>),
                ''prod'' \<mapsto> Some (emptyWorkerServiceConfig\<lparr>TaskConfig_w := range_overlay\<rparr>)]\<rparr>"



section \<open>Properties\<close>

subsection \<open>Health checks\<close>

lemma applyIfNotSet_fields:
  "Command (applyIfNotSet hc other) =
     (case Command hc of None \<Rightarrow> Command other | Some c \<Rightarrow> Some c)"
  "Interval (applyIfNotSet hc other) =
     (case Interval hc of None \<Rightarrow> Interval other | Some d \<Rightarrow> Some d)"
  "Retries (applyIfNotSet hc other) =
     (case Retries hc of None \<Rightarrow> Retries other | Some n \<Rightarrow> Some n)"
  "Timeout (applyIfNotSet hc other) =
     (case Timeout hc of None \<Rightarrow> Timeout other | Some d \<Rightarrow> Some d)"
  "StartPeriod (applyIfNotSet hc other) =
     (case StartPeriod hc of None \<Rightarrow> StartPeriod other | Some d \<Rightarrow> Some d)"
  by (simp_all add: applyIfNotSet_def Let_def split: option.splits)

lemma backfilled_fields_set:
  "Interval (applyIfNotSet hc newDefaultContainerHealthCheck) \<noteq> None"
  "Retries (applyIfNotSet hc newDefaultContainerHealthCheck) \<noteq> None"
  "Timeout (applyIfNotSet hc newDefaultContainerHealthCheck) \<noteq> None"
  "StartPeriod (applyIfNotSet hc newDefaultContainerHealthCheck) \<noteq> None"
  by (simp_all add: applyIfNotSet_fields newDefaultContainerHealthCheck_def split: option.splits)

lemma HealthCheckOpts_set:
  "HealthCheck i = Some hc \<Longrightarrow> Interval hc \<noteq> None \<Longrightarrow> Retries hc \<noteq> None \<Longrightarrow>
   Timeout hc \<noteq> None \<Longrightarrow> StartPeriod hc \<noteq> None \<Longrightarrow>
   \<exists>opts. HealthCheckOpts seconds i = Inr (Some opts)"
  by (auto simp: HealthCheckOpts_def)

lemma UnmarshalWorkload_backend_healthcheck:
  assumes "UnmarshalWorkload y inp = Inr (BackendServiceManifest m)"
  shows "HealthCheck (ImageConfig (BackendServiceConfig m)) = None
         \<or> (\<exists>hc. HealthCheck (ImageConfig (BackendServiceConfig m)) =
                   Some (applyIfNotSet hc newDefaultContainerHealthCheck))"
proof (cases "Unmarshal_Workload y inp \<lparr>Name = None, Type = None\<rparr>")
  case (Inl e)
  with assms show ?thesis by (simp add: UnmarshalWorkload_def)
next
  case (Inr am)
  show ?thesis
  proof (cases "Unmarshal_BackendService y inp newDefaultBackendService")
    case (Inl e)
    with assms Inr show ?thesis
      by (simp add: UnmarshalWorkload_def Let_def split: if_splits sum.splits)
  next
    case decoded: (Inr m')
    show ?thesis
    proof (cases "HealthCheck (ImageConfig (BackendServiceConfig m'))")
      case None
      with assms Inr decoded show ?thesis
        by (auto simp: UnmarshalWorkload_def Let_def split: if_splits sum.splits)
    next
      case (Some hc)
      with assms Inr decoded show ?thesis
        by (auto simp: UnmarshalWorkload_def Let_def split: if_splits sum.splits)
    qed
  qed
qed

text \<open>
  C7. After \<^verbatim>\<open>target.applyIfNotSet(other)\<close> each of the five fields (command,
  interval, retries, timeout, start period) is the target's own value when that value
  was set, and \<open>other\<close>'s value when it was not: a set field is never overwritten.
\<close>

theorem applyIfNotSet_fills_unset_only:
  "Command (applyIfNotSet hc other) =
     (case Command hc of None \<Rightarrow> Command other | Some c \<Rightarrow> Some c)
   \<and> Interval (applyIfNotSet hc other) =
     (case Interval hc of None \<Rightarrow> Interval other | Some d \<Rightarrow> Some d)
   \<and> Retries (applyIfNotSet hc other) =
     (case Retries hc of None \<Rightarrow> Retries other | Some n \<Rightarrow> Some n)
   \<and> Timeout (applyIfNotSet hc other) =
     (case Timeout hc of None \<Rightarrow> Timeout other | Some d \<Rightarrow> Some d)
   \<and> StartPeriod (applyIfNotSet hc other) =
     (case StartPeriod hc of None \<Rightarrow> StartPeriod other | Some d \<Rightarrow> Some d)"
  by (simp add: applyIfNotSet_def Let_def split: option.splits)

text \<open>
  The spec's example: the target has 2 retries and no timeout, the default has 5
  retries and a timeout of 10 seconds; the result has 2 retries and 10 seconds.
\<close>

theorem applyIfNotSet_fills_unset_only_witness:
  "Retries (applyIfNotSet
      \<lparr>Command = None, Interval = None, Retries = Some 2, Timeout = None, StartPeriod = None\<rparr>
      \<lparr>Command = None, Interval = None, Retries = Some 5, Timeout = Some (10 * Second),
       StartPeriod = None\<rparr>) = Some 2
   \<and> Timeout (applyIfNotSet
      \<lparr>Command = None, Interval = None, Retries = Some 2, Timeout = None, StartPeriod = None\<rparr>
      \<lparr>Command = None, Interval = None, Retries = Some 5, Timeout = Some (10 * Second),
       StartPeriod = None\<rparr>) = Some (10 * Second)"
  using applyIfNotSet_fills_unset_only
    [of "\<lparr>Command = None, Interval = None, Retries = Some 2, Timeout = None, StartPeriod = None\<rparr>"
        "\<lparr>Command = None, Interval = None, Retries = Some 5, Timeout = Some (10 * Second),
          StartPeriod = None\<rparr>"]
  by simp

text \<open>
  C10. \<^verbatim>\<open>HealthCheckOpts\<close> returns \<^verbatim>\<open>nil\<close> exactly when the health check is \<^verbatim>\<open>nil\<close>.
  With a health check whose interval, retries, timeout and start period are all set
  it returns the converted health check; with one of the four unset it panics on the
  \<^verbatim>\<open>nil\<close> pointer. A health check backfilled from the default by \<^verbatim>\<open>applyIfNotSet\<close>
  has the four set, so the conversion returns for it, and so it does for the image of
  every backend service that \<^verbatim>\<open>UnmarshalWorkload\<close> returns.
\<close>

theorem HealthCheckOpts_defined_iff_fields_set:
  "(HealthCheckOpts seconds i = Inr None \<longleftrightarrow> HealthCheck i = None)
   \<and> (\<forall>hc iv r t sp.
         HealthCheck i = Some hc \<and> Interval hc = Some iv \<and> Retries hc = Some r
         \<and> Timeout hc = Some t \<and> StartPeriod hc = Some sp \<longrightarrow>
         HealthCheckOpts seconds i =
           Inr (Some \<lparr>ecs_Command = (case Command hc of None \<Rightarrow> [] | Some c \<Rightarrow> c),
                      ecs_Interval = seconds iv, ecs_Retries = r,
                      ecs_StartPeriod = seconds sp, ecs_Timeout = seconds t\<rparr>))
   \<and> (\<forall>hc.
         HealthCheck i = Some hc
         \<and> (Interval hc = None \<or> Retries hc = None \<or> Timeout hc = None \<or> StartPeriod hc = None)
         \<longrightarrow> HealthCheckOpts seconds i = Inl NilPointerDereference)
   \<and> (\<forall>hc.
         HealthCheck i = Some (applyIfNotSet hc newDefaultContainerHealthCheck) \<longrightarrow>
         (\<exists>opts. HealthCheckOpts seconds i = Inr (Some opts)))
   \<and> (\<forall>m.
         UnmarshalWorkload y inp = Inr (BackendServiceManifest m) \<longrightarrow>
         (\<exists>r. HealthCheckOpts seconds (ImageConfig (BackendServiceConfig m)) = Inr r))"
proof (intro conjI allI impI)
  show "HealthCheckOpts seconds i = Inr None \<longleftrightarrow> HealthCheck i = None"
    by (simp add: HealthCheckOpts_def split: option.splits)
next
  fix hc iv r t sp
  assume "HealthCheck i = Some hc \<and> Interval hc = Some iv \<and> Retries hc = Some r
          \<and> Timeout hc = Some t \<and> StartPeriod hc = Some sp"
  then show "HealthCheckOpts seconds i =
           Inr (Some \<lparr>ecs_Command = (case Command hc of None \<Rightarrow> [] | Some c \<Rightarrow> c),
                      ecs_Interval = seconds iv, ecs_Retries = r,
                      ecs_StartPeriod = seconds sp, ecs_Timeout = seconds t\<rparr>)"
    by (simp add: HealthCheckOpts_def)
next
  fix hc
  assume "HealthCheck i = Some hc
          \<and> (Interval hc = None \<or> Retries hc = None \<or> Timeout hc = None \<or> StartPeriod hc = None)"
  then show "HealthCheckOpts seconds i = Inl NilPointerDereference"
    by (auto simp: HealthCheckOpts_def split: option.splits)
next
  fix hc
  assume "HealthCheck i = Some (applyIfNotSet hc newDefaultContainerHealthCheck)"
  then show "\<exists>opts. HealthCheckOpts seconds i = Inr (Some opts)"
    by (rule HealthCheckOpts_set) (rule backfilled_fields_set)+
next
  fix m
  assume "UnmarshalWorkload y inp = Inr (BackendServiceManifest m)"
  from UnmarshalWorkload_backend_healthcheck [OF this]
  show "\<exists>r. HealthCheckOpts seconds (ImageConfig (BackendServiceConfig m)) = Inr r"
  proof
    assume "HealthCheck (ImageConfig (BackendServiceConfig m)) = None"
    then show ?thesis by (simp add: HealthCheckOpts_def)
  next
    assume "\<exists>hc. HealthCheck (ImageConfig (BackendServiceConfig m)) =
                   Some (applyIfNotSet hc newDefaultContainerHealthCheck)"
    then obtain hc where "HealthCheck (ImageConfig (BackendServiceConfig m)) =
                   Some (applyIfNotSet hc newDefaultContainerHealthCheck)" ..
    then have "\<exists>opts. HealthCheckOpts seconds (ImageConfig (BackendServiceConfig m)) =
                 Inr (Some opts)"
      by (rule HealthCheckOpts_set) (rule backfilled_fields_set)+
    then show ?thesis by blast
  qed
qed

lemma retries_only_backfilled:
  "applyIfNotSet retries_only newDefaultContainerHealthCheck =
     \<lparr>Command = Some [''CMD-SHELL'', ''curl -f http://localhost/ || exit 1''],
      Interval = Some (10 * Second), Retries = Some 3,
      Timeout = Some (5 * Second), StartPeriod = Some 0\<rparr>"
  by (simp add: applyIfNotSet_def retries_only_def newDefaultContainerHealthCheck_def)

lemma workload_types_distinct:
  "LoadBalancedWebServiceType \<noteq> BackendServiceType"
  "LoadBalancedWebServiceType \<noteq> ScheduledJobType"
  "BackendServiceType \<noteq> ScheduledJobType"
  "WorkerServiceType \<noteq> LoadBalancedWebServiceType"
  "WorkerServiceType \<noteq> BackendServiceType"
  "WorkerServiceType \<noteq> ScheduledJobType"
  "BackendServiceType \<noteq> LoadBalancedWebServiceType"
  "ScheduledJobType \<noteq> LoadBalancedWebServiceType"
  "ScheduledJobType \<noteq> BackendServiceType"
  by (simp_all add: LoadBalancedWebServiceType_def BackendServiceType_def ScheduledJobType_def
        WorkerServiceType_def)

lemma retries_only_read:
  "UnmarshalWorkload retries_only_yaml inp = Inr (BackendServiceManifest retries_only_service)"
  by (simp add: UnmarshalWorkload_def retries_only_yaml_def document_yaml_def typed_def
        StringValue_def workload_types_distinct retries_only_backfilled
        retries_only_service_def newDefaultBackendService_def)

text \<open>
  A health check with 3 retries only, backfilled, is converted (10 and 5 seconds come
  from the default); without the backfill it panics; no health check gives \<^verbatim>\<open>nil\<close>;
  the service read from the document with such a health check is converted. Seconds
  are whole seconds here.
\<close>

theorem HealthCheckOpts_defined_iff_fields_set_witness:
  "HealthCheckOpts (\<lambda>d. d div Second)
     \<lparr>Image = emptyImage, Port = None,
      HealthCheck = Some (applyIfNotSet retries_only newDefaultContainerHealthCheck)\<rparr>
     = Inr (Some \<lparr>ecs_Command = [''CMD-SHELL'', ''curl -f http://localhost/ || exit 1''],
                  ecs_Interval = 10, ecs_Retries = 3, ecs_StartPeriod = 0, ecs_Timeout = 5\<rparr>)
   \<and> HealthCheckOpts (\<lambda>d. d div Second)
       \<lparr>Image = emptyImage, Port = None, HealthCheck = Some retries_only\<rparr>
     = Inl NilPointerDereference
   \<and> HealthCheckOpts (\<lambda>d. d div Second) \<lparr>Image = emptyImage, Port = None, HealthCheck = None\<rparr>
     = Inr None
   \<and> (\<exists>opts. HealthCheckOpts (\<lambda>d. d div Second)
        \<lparr>Image = emptyImage, Port = None,
         HealthCheck = Some (applyIfNotSet retries_only newDefaultContainerHealthCheck)\<rparr>
      = Inr (Some opts))
   \<and> (\<exists>r. HealthCheckOpts (\<lambda>d. d div Second)
        (ImageConfig (BackendServiceConfig retries_only_service)) = Inr r)"
proof (intro conjI)
  let ?filled = "applyIfNotSet retries_only newDefaultContainerHealthCheck"
  let ?i = "\<lambda>h. \<lparr>Image = emptyImage, Port = None, HealthCheck = h\<rparr>"
  let ?doc = "''{type: backend-service, image: {healthcheck: {retries: 3}}}''"
  have filled: "Command ?filled = Some [''CMD-SHELL'', ''curl -f http://localhost/ || exit 1'']"
    "Interval ?filled = Some (10 * Second)" "Retries ?filled = Some 3"
    "Timeout ?filled = Some (5 * Second)" "StartPeriod ?filled = Some 0"
    by (simp_all add: retries_only_backfilled)
  from HealthCheckOpts_defined_iff_fields_set
         [of "\<lambda>d. d div Second" "?i (Some ?filled)", THEN conjunct2, THEN conjunct1,
          rule_format, of ?filled "10 * Second" 3 "5 * Second" 0]
       filled
  show "HealthCheckOpts (\<lambda>d. d div Second) (?i (Some ?filled))
     = Inr (Some \<lparr>ecs_Command = [''CMD-SHELL'', ''curl -f http://localhost/ || exit 1''],
                  ecs_Interval = 10, ecs_Retries = 3, ecs_StartPeriod = 0, ecs_Timeout = 5\<rparr>)"
    by (simp add: Second_def)
  from HealthCheckOpts_defined_iff_fields_set
         [of "\<lambda>d. d div Second" "?i (Some retries_only)",
          THEN conjunct2, THEN conjunct2, THEN conjunct1, rule_format, of retries_only]
  show "HealthCheckOpts (\<lambda>d. d div Second) (?i (Some retries_only)) = Inl NilPointerDereference"
    by (simp add: retries_only_def)
  from HealthCheckOpts_defined_iff_fields_set [of "\<lambda>d. d div Second" "?i None", THEN conjunct1]
  show "HealthCheckOpts (\<lambda>d. d div Second) (?i None) = Inr None"
    by simp
  from HealthCheckOpts_defined_iff_fields_set
         [of "\<lambda>d. d div Second" "?i (Some ?filled)",
          THEN conjunct2, THEN conjunct2, THEN conjunct2, THEN conjunct1, rule_format,
          of retries_only]
  show "\<exists>opts. HealthCheckOpts (\<lambda>d. d div Second) (?i (Some ?filled)) = Inr (Some opts)"
    by simp
  from HealthCheckOpts_defined_iff_fields_set
         [of "\<lambda>d. d div Second" _ retries_only_yaml ?doc,
          THEN conjunct2, THEN conjunct2, THEN conjunct2, THEN conjunct2, rule_format,
          of retries_only_service]
       retries_only_read [of ?doc]
  show "\<exists>r. HealthCheckOpts (\<lambda>d. d div Second)
        (ImageConfig (BackendServiceConfig retries_only_service)) = Inr r"
    by simp
qed

subsection \<open>Image source\<close>

text \<open>
  C6. The build-required check fails exactly when the build form is non-empty and the
  location is set, or the build form is empty and the location is not set. With the
  build form alone it returns true, with the location alone false.
  \<^verbatim>\<open>BuildRequired\<close> of a backend service and of a worker service is this check on the
  service's image.
\<close>

theorem requiresBuild_exactly_one_source:
  "((\<exists>e. requiresBuild img = Inl e) \<longleftrightarrow>
      (\<not> BuildArgsOrString_isEmpty (Build img) \<and> Location img \<noteq> None)
      \<or> (BuildArgsOrString_isEmpty (Build img) \<and> Location img = None))
   \<and> (\<not> BuildArgsOrString_isEmpty (Build img) \<and> Location img = None
        \<longrightarrow> requiresBuild img = Inr True)
   \<and> (BuildArgsOrString_isEmpty (Build img) \<and> Location img \<noteq> None
        \<longrightarrow> requiresBuild img = Inr False)
   \<and> BackendService_BuildRequired b = requiresBuild (Image (ImageConfig (BackendServiceConfig b)))
   \<and> WorkerService_BuildRequired w = requiresBuild (Image_w (ImageConfig_w (WorkerServiceConfig w)))"
  by (auto simp: requiresBuild_def Let_def BackendService_BuildRequired_def
        WorkerService_BuildRequired_def)

text \<open>
  A Dockerfile alone requires a build; a location alone does not; both together, and
  neither, are errors.
\<close>

theorem requiresBuild_exactly_one_source_witness:
  "requiresBuild (emptyImage\<lparr>Build := emptyBuild\<lparr>BuildString := Some ''./Dockerfile''\<rparr>\<rparr>) = Inr True
   \<and> requiresBuild (emptyImage\<lparr>Location := Some ''nginx''\<rparr>) = Inr False
   \<and> (\<exists>e. requiresBuild (emptyImage\<lparr>Build := emptyBuild\<lparr>BuildString := Some ''./Dockerfile''\<rparr>,
                                       Location := Some ''nginx''\<rparr>) = Inl e)
   \<and> (\<exists>e. requiresBuild emptyImage = Inl e)"
proof (intro conjI)
  let ?b = "emptyBuild\<lparr>BuildString := Some ''./Dockerfile''\<rparr>"
  have b: "\<not> BuildArgsOrString_isEmpty ?b" and e: "BuildArgsOrString_isEmpty emptyBuild"
    by (simp_all add: BuildArgsOrString_isEmpty_def DockerBuildArgs_isEmpty_def emptyBuild_def
          emptyDockerBuildArgs_def StringValue_def)
  from requiresBuild_exactly_one_source [of "emptyImage\<lparr>Build := ?b\<rparr>", THEN conjunct2, THEN conjunct1] b
  show "requiresBuild (emptyImage\<lparr>Build := ?b\<rparr>) = Inr True"
    by (simp add: emptyImage_def)
  from requiresBuild_exactly_one_source
         [of "emptyImage\<lparr>Location := Some ''nginx''\<rparr>", THEN conjunct2, THEN conjunct2, THEN conjunct1] e
  show "requiresBuild (emptyImage\<lparr>Location := Some ''nginx''\<rparr>) = Inr False"
    by (simp add: emptyImage_def)
  from requiresBuild_exactly_one_source
         [of "emptyImage\<lparr>Build := ?b, Location := Some ''nginx''\<rparr>", THEN conjunct1] b
  show "\<exists>e. requiresBuild (emptyImage\<lparr>Build := ?b, Location := Some ''nginx''\<rparr>) = Inl e"
    by (simp add: emptyImage_def)
  from requiresBuild_exactly_one_source [of emptyImage, THEN conjunct1] e
  show "\<exists>e. requiresBuild emptyImage = Inl e"
    by (simp add: emptyImage_def)
qed

subsection \<open>Port mappings\<close>

lemma split_acc_no_separator: "c \<notin> set s \<Longrightarrow> split_acc c acc s = [rev acc @ s]"
  by (induction s arbitrary: acc) auto

lemma split_acc_first_separator:
  "c \<in> set s \<Longrightarrow>
   split_acc c acc s =
     (rev acc @ takeWhile (\<lambda>x. x \<noteq> c) s) # split_acc c [] (tl (dropWhile (\<lambda>x. x \<noteq> c) s))"
  by (induction s arbitrary: acc) (auto simp: split_acc_no_separator)

lemma length_split_acc: "length (split_acc c acc s) = Suc (count_list s c)"
  by (induction s arbitrary: acc) auto

lemma count_after_first_separator:
  "c \<in> set s \<Longrightarrow> count_list (tl (dropWhile (\<lambda>x. x \<noteq> c) s)) c = count_list s c - 1"
  by (induction s) auto

text \<open>
  C9. For a port string that is not \<^verbatim>\<open>nil\<close>, \<^verbatim>\<open>parsePortMapping\<close> returns the whole
  string as the port and no protocol when the string has no slash; the part before
  the slash as the port and the part after it as the protocol when it has exactly one
  slash; and the format error, with no values, when it has two slashes or more.
\<close>

theorem parsePortMapping_grammar:
  "(CHR ''/'' \<notin> set s \<longrightarrow> parsePortMapping (Some s) = Inr (Some s, None))
   \<and> (count_list s (CHR ''/'') = 1 \<longrightarrow>
        parsePortMapping (Some s) =
          Inr (Some (takeWhile (\<lambda>c. c \<noteq> CHR ''/'') s),
               Some (tl (dropWhile (\<lambda>c. c \<noteq> CHR ''/'') s))))
   \<and> (2 \<le> count_list s (CHR ''/'') \<longrightarrow>
        parsePortMapping (Some s) = Inl (Errorf (''cannot parse port mapping from '' @ s)))"
proof (intro conjI impI)
  assume "CHR ''/'' \<notin> set s"
  then show "parsePortMapping (Some s) = Inr (Some s, None)"
    by (simp add: parsePortMapping_def Split_def split_acc_no_separator)
next
  assume one: "count_list s (CHR ''/'') = 1"
  then have mem: "CHR ''/'' \<in> set s"
    using count_list_0_iff [of s "CHR ''/''"] by auto
  have "count_list (tl (dropWhile (\<lambda>c. c \<noteq> CHR ''/'') s)) (CHR ''/'') = 0"
    using count_after_first_separator [OF mem] one by simp
  then have "CHR ''/'' \<notin> set (tl (dropWhile (\<lambda>c. c \<noteq> CHR ''/'') s))"
    using count_list_0_iff by fastforce
  then show "parsePortMapping (Some s) =
          Inr (Some (takeWhile (\<lambda>c. c \<noteq> CHR ''/'') s),
               Some (tl (dropWhile (\<lambda>c. c \<noteq> CHR ''/'') s)))"
    using mem
    by (simp add: parsePortMapping_def Split_def split_acc_first_separator split_acc_no_separator)
next
  assume "2 \<le> count_list s (CHR ''/'')"
  then have "3 \<le> length (Split s (CHR ''/''))"
    by (simp add: Split_def length_split_acc)
  then show "parsePortMapping (Some s) = Inl (Errorf (''cannot parse port mapping from '' @ s))"
    by (auto simp: parsePortMapping_def split: list.splits)
qed

text \<open>The spec's three examples.\<close>

theorem parsePortMapping_grammar_witness:
  "parsePortMapping (Some ''2000'') = Inr (Some ''2000'', None)
   \<and> parsePortMapping (Some ''2000/udp'') = Inr (Some ''2000'', Some ''udp'')
   \<and> parsePortMapping (Some ''2000/udp/extra'') =
       Inl (Errorf ''cannot parse port mapping from 2000/udp/extra'')"
  using parsePortMapping_grammar [of "''2000''"] parsePortMapping_grammar [of "''2000/udp''"]
    parsePortMapping_grammar [of "''2000/udp/extra''"]
  by simp

subsection \<open>Build context\<close>

text \<open>
  C5. With \<open>df\<close> the Dockerfile path and \<open>ctx\<close> the context of the image's build
  form, \<^verbatim>\<open>BuildConfig\<close> returns: for \<open>df\<close> and \<open>ctx\<close> both set, the Dockerfile
  \<open>root/df\<close> and the context \<open>root/ctx\<close>; for \<open>df\<close> alone, \<open>root/df\<close> and
  \<open>root/dirname(df)\<close>; for \<open>ctx\<close> alone, \<open>root/ctx/Dockerfile\<close> and \<open>root/ctx\<close>;
  for neither, \<open>root/Dockerfile\<close> and \<open>root\<close>. A path \<open>a/b\<close> is \<^verbatim>\<open>filepath.Join\<close>
  of its parts. The build arguments, the target stage and the cache-from list are
  those of the build form. The function is pure.
\<close>

theorem BuildConfig_precedence:
  "(Image_dockerfile i \<noteq> [] \<and> Image_context i \<noteq> [] \<longrightarrow>
      BuildConfig i root =
        \<lparr>Context = Some (Join [root, Image_context i]),
         Dockerfile = Some (Join [root, Image_dockerfile i]),
         Args = Args (BuildArgs (Build i)),
         Target = Target (BuildArgs (Build i)),
         CacheFrom = CacheFrom (BuildArgs (Build i))\<rparr>)
   \<and> (Image_dockerfile i \<noteq> [] \<and> Image_context i = [] \<longrightarrow>
      BuildConfig i root =
        \<lparr>Context = Some (Join [root, Dir (Image_dockerfile i)]),
         Dockerfile = Some (Join [root, Image_dockerfile i]),
         Args = Args (BuildArgs (Build i)),
         Target = Target (BuildArgs (Build i)),
         CacheFrom = CacheFrom (BuildArgs (Build i))\<rparr>)
   \<and> (Image_dockerfile i = [] \<and> Image_context i \<noteq> [] \<longrightarrow>
      BuildConfig i root =
        \<lparr>Context = Some (Join [root, Image_context i]),
         Dockerfile = Some (Join [root, Image_context i, ''Dockerfile'']),
         Args = Args (BuildArgs (Build i)),
         Target = Target (BuildArgs (Build i)),
         CacheFrom = CacheFrom (BuildArgs (Build i))\<rparr>)
   \<and> (Image_dockerfile i = [] \<and> Image_context i = [] \<longrightarrow>
      BuildConfig i root =
        \<lparr>Context = Some root,
         Dockerfile = Some (Join [root, ''Dockerfile'']),
         Args = Args (BuildArgs (Build i)),
         Target = Target (BuildArgs (Build i)),
         CacheFrom = CacheFrom (BuildArgs (Build i))\<rparr>)"
  by (simp add: BuildConfig_def Let_def Image_args_def Image_target_def Image_cacheFrom_def
        dockerfileDefaultName_def)

text \<open>
  The spec's four examples, with the root \<^verbatim>\<open>/ws\<close>; the last one carries build
  arguments, a target and a cache source, which pass through.
\<close>

theorem BuildConfig_precedence_witness:
  "BuildConfig (emptyImage\<lparr>Build := emptyBuild\<lparr>BuildString := Some ''svc/Dockerfile''\<rparr>\<rparr>) ''/ws''
     = \<lparr>Context = Some ''/ws/svc'', Dockerfile = Some ''/ws/svc/Dockerfile'',
        Args = None, Target = None, CacheFrom = None\<rparr>
   \<and> BuildConfig (emptyImage\<lparr>Build := emptyBuild\<lparr>BuildArgs :=
         emptyDockerBuildArgs\<lparr>Context := Some ''svc''\<rparr>\<rparr>\<rparr>) ''/ws''
     = \<lparr>Context = Some ''/ws/svc'', Dockerfile = Some ''/ws/svc/Dockerfile'',
        Args = None, Target = None, CacheFrom = None\<rparr>
   \<and> BuildConfig emptyImage ''/ws''
     = \<lparr>Context = Some ''/ws'', Dockerfile = Some ''/ws/Dockerfile'',
        Args = None, Target = None, CacheFrom = None\<rparr>
   \<and> BuildConfig (emptyImage\<lparr>Build := emptyBuild\<lparr>BuildArgs :=
         \<lparr>Context = Some ''b'', Dockerfile = Some ''a/Dockerfile'',
          Args = Some [''KEY'' \<mapsto> ''v''], Target = Some ''prod'',
          CacheFrom = Some [''img:latest'']\<rparr>\<rparr>\<rparr>) ''/ws''
     = \<lparr>Context = Some ''/ws/b'', Dockerfile = Some ''/ws/a/Dockerfile'',
        Args = Some [''KEY'' \<mapsto> ''v''], Target = Some ''prod'',
        CacheFrom = Some [''img:latest'']\<rparr>"
proof (intro conjI)
  note defs = emptyImage_def emptyBuild_def emptyDockerBuildArgs_def Image_dockerfile_def
    Image_context_def StringValue_def
  note paths = Join_def Dir_def Clean_def Split_def clean_elem_def
  let ?i1 = "emptyImage\<lparr>Build := emptyBuild\<lparr>BuildString := Some ''svc/Dockerfile''\<rparr>\<rparr>"
  let ?i2 = "emptyImage\<lparr>Build := emptyBuild\<lparr>BuildArgs :=
         emptyDockerBuildArgs\<lparr>Context := Some ''svc''\<rparr>\<rparr>\<rparr>"
  let ?i4 = "emptyImage\<lparr>Build := emptyBuild\<lparr>BuildArgs :=
         \<lparr>Context = Some ''b'', Dockerfile = Some ''a/Dockerfile'',
          Args = Some [''KEY'' \<mapsto> ''v''], Target = Some ''prod'',
          CacheFrom = Some [''img:latest'']\<rparr>\<rparr>\<rparr>"
  have "Image_dockerfile ?i1 = ''svc/Dockerfile''" "Image_context ?i1 = []"
    by (simp_all add: defs)
  with BuildConfig_precedence [of ?i1 "''/ws''", THEN conjunct2, THEN conjunct1]
  show "BuildConfig ?i1 ''/ws''
     = \<lparr>Context = Some ''/ws/svc'', Dockerfile = Some ''/ws/svc/Dockerfile'',
        Args = None, Target = None, CacheFrom = None\<rparr>"
    by (simp add: defs paths)
  have "Image_dockerfile ?i2 = []" "Image_context ?i2 = ''svc''"
    by (simp_all add: defs)
  with BuildConfig_precedence
         [of ?i2 "''/ws''", THEN conjunct2, THEN conjunct2, THEN conjunct1]
  show "BuildConfig ?i2 ''/ws''
     = \<lparr>Context = Some ''/ws/svc'', Dockerfile = Some ''/ws/svc/Dockerfile'',
        Args = None, Target = None, CacheFrom = None\<rparr>"
    by (simp add: defs paths)
  have "Image_dockerfile emptyImage = []" "Image_context emptyImage = []"
    by (simp_all add: defs)
  with BuildConfig_precedence
         [of emptyImage "''/ws''", THEN conjunct2, THEN conjunct2, THEN conjunct2]
  show "BuildConfig emptyImage ''/ws''
     = \<lparr>Context = Some ''/ws'', Dockerfile = Some ''/ws/Dockerfile'',
        Args = None, Target = None, CacheFrom = None\<rparr>"
    by (simp add: defs paths)
  have "Image_dockerfile ?i4 = ''a/Dockerfile''" "Image_context ?i4 = ''b''"
    by (simp_all add: defs)
  with BuildConfig_precedence [of ?i4 "''/ws''", THEN conjunct1]
  show "BuildConfig ?i4 ''/ws''
     = \<lparr>Context = Some ''/ws/b'', Dockerfile = Some ''/ws/a/Dockerfile'',
        Args = Some [''KEY'' \<mapsto> ''v''], Target = Some ''prod'',
        CacheFrom = Some [''img:latest'']\<rparr>"
    by (simp add: defs paths)
qed

subsection \<open>Decoding a scalar or a structure\<close>





subsection \<open>Reading a workload by its type\<close>

text \<open>
  C8, as stated, has \<^verbatim>\<open>UnmarshalWorkload\<close> fail exactly when the document does not
  parse into the base shape or declares a type outside the four kinds. The document
  of the example parses into the base shape and declares a backend service, and
  \<^verbatim>\<open>UnmarshalWorkload\<close> still returns an error: the second decoding, into the backend
  service, fails.
\<close>

theorem UnmarshalWorkload_typed_decode_error:
  "Unmarshal_Workload sequence_build_yaml
       ''{name: api, type: backend-service, image: {build: [1, 2]}}'' \<lparr>Name = None, Type = None\<rparr>
     = Inr \<lparr>Name = Some ''api'', Type = Some BackendServiceType\<rparr>
   \<and> UnmarshalWorkload sequence_build_yaml
       ''{name: api, type: backend-service, image: {build: [1, 2]}}''
     = Inl (Wrapf ''unmarshal to backend service'' errUnmarshalBuildOpts)"
proof
  show "Unmarshal_Workload sequence_build_yaml
       ''{name: api, type: backend-service, image: {build: [1, 2]}}'' \<lparr>Name = None, Type = None\<rparr>
     = Inr \<lparr>Name = Some ''api'', Type = Some BackendServiceType\<rparr>"
    by (simp add: sequence_build_yaml_def document_yaml_def)
  have "Unmarshal_BackendService sequence_build_yaml
          ''{name: api, type: backend-service, image: {build: [1, 2]}}'' newDefaultBackendService
        = Inl errUnmarshalBuildOpts"
    by (simp add: sequence_build_yaml_def document_yaml_def newDefaultBackendService_def
          emptyImage_def emptyBuild_def emptyDockerBuildArgs_def
          BuildArgsOrString_UnmarshalYAML_def DockerBuildArgs_isEmpty_def)
  then show "UnmarshalWorkload sequence_build_yaml
       ''{name: api, type: backend-service, image: {build: [1, 2]}}''
     = Inl (Wrapf ''unmarshal to backend service'' errUnmarshalBuildOpts)"
    by (simp add: UnmarshalWorkload_def sequence_build_yaml_def document_yaml_def
          StringValue_def workload_types_distinct)
qed

text \<open>
  C8, amended. \<^verbatim>\<open>UnmarshalWorkload\<close> returns a typed manifest when the document parses
  into the base shape, declares a load balanced web service, a backend service or a
  scheduled job, and decodes into that kind's shape (a backend service comes with its
  health check backfilled). It returns an error and no manifest when the document
  does not parse into the base shape, when it does not decode into the shape of the
  kind it declares, and when it declares a type outside the four kinds.
\<close>

theorem UnmarshalWorkload_dispatch:
  "(\<forall>err. Unmarshal_Workload y inp \<lparr>Name = None, Type = None\<rparr> = Inl err \<longrightarrow>
      UnmarshalWorkload y inp = Inl (Wrapf ''unmarshal to workload manifest'' err))
   \<and> (\<forall>am. Unmarshal_Workload y inp \<lparr>Name = None, Type = None\<rparr> = Inr am \<longrightarrow>
      (StringValue (Type am) = LoadBalancedWebServiceType \<longrightarrow>
         UnmarshalWorkload y inp =
           (case Unmarshal_LoadBalancedWebService y inp (newDefaultLoadBalancedWebService y) of
              Inl err \<Rightarrow> Inl (Wrapf ''unmarshal to load balanced web service'' err)
            | Inr m \<Rightarrow> Inr (LoadBalancedWebService m)))
      \<and> (StringValue (Type am) = BackendServiceType \<longrightarrow>
         UnmarshalWorkload y inp =
           (case Unmarshal_BackendService y inp newDefaultBackendService of
              Inl err \<Rightarrow> Inl (Wrapf ''unmarshal to backend service'' err)
            | Inr m \<Rightarrow>
                Inr (BackendServiceManifest
                  (m\<lparr>BackendServiceConfig :=
                       (BackendServiceConfig m)\<lparr>ImageConfig :=
                          (ImageConfig (BackendServiceConfig m))\<lparr>HealthCheck :=
                             map_option (\<lambda>hc. applyIfNotSet hc newDefaultContainerHealthCheck)
                               (HealthCheck (ImageConfig (BackendServiceConfig m)))\<rparr>\<rparr>\<rparr>))))
      \<and> (StringValue (Type am) = ScheduledJobType \<longrightarrow>
         UnmarshalWorkload y inp =
           (case Unmarshal_ScheduledJob y inp (newDefaultScheduledJob y) of
              Inl err \<Rightarrow> Inl (Wrapf ''unmarshal to scheduled job'' err)
            | Inr m \<Rightarrow> Inr (ScheduledJob m)))
      \<and> (StringValue (Type am) \<notin>
            {LoadBalancedWebServiceType, BackendServiceType, ScheduledJobType, WorkerServiceType}
          \<longrightarrow> UnmarshalWorkload y inp = Inl (ErrInvalidWorkloadType (StringValue (Type am)))))"
proof (intro conjI allI impI)
  fix err
  assume "Unmarshal_Workload y inp \<lparr>Name = None, Type = None\<rparr> = Inl err"
  then show "UnmarshalWorkload y inp = Inl (Wrapf ''unmarshal to workload manifest'' err)"
    by (simp add: UnmarshalWorkload_def)
next
  fix am
  assume "Unmarshal_Workload y inp \<lparr>Name = None, Type = None\<rparr> = Inr am"
    and "StringValue (Type am) = LoadBalancedWebServiceType"
  then show "UnmarshalWorkload y inp =
           (case Unmarshal_LoadBalancedWebService y inp (newDefaultLoadBalancedWebService y) of
              Inl err \<Rightarrow> Inl (Wrapf ''unmarshal to load balanced web service'' err)
            | Inr m \<Rightarrow> Inr (LoadBalancedWebService m))"
    by (simp add: UnmarshalWorkload_def)
next
  fix am
  assume am: "Unmarshal_Workload y inp \<lparr>Name = None, Type = None\<rparr> = Inr am"
    "StringValue (Type am) = BackendServiceType"
  show "UnmarshalWorkload y inp =
           (case Unmarshal_BackendService y inp newDefaultBackendService of
              Inl err \<Rightarrow> Inl (Wrapf ''unmarshal to backend service'' err)
            | Inr m \<Rightarrow>
                Inr (BackendServiceManifest
                  (m\<lparr>BackendServiceConfig :=
                       (BackendServiceConfig m)\<lparr>ImageConfig :=
                          (ImageConfig (BackendServiceConfig m))\<lparr>HealthCheck :=
                             map_option (\<lambda>hc. applyIfNotSet hc newDefaultContainerHealthCheck)
                               (HealthCheck (ImageConfig (BackendServiceConfig m)))\<rparr>\<rparr>\<rparr>)))"
  proof (cases "Unmarshal_BackendService y inp newDefaultBackendService")
    case (Inl err)
    with am show ?thesis
      by (simp add: UnmarshalWorkload_def workload_types_distinct)
  next
    case (Inr m)
    with am show ?thesis
      by (cases "HealthCheck (ImageConfig (BackendServiceConfig m))")
         (simp_all add: UnmarshalWorkload_def workload_types_distinct)
  qed
next
  fix am
  assume "Unmarshal_Workload y inp \<lparr>Name = None, Type = None\<rparr> = Inr am"
    and "StringValue (Type am) = ScheduledJobType"
  then show "UnmarshalWorkload y inp =
           (case Unmarshal_ScheduledJob y inp (newDefaultScheduledJob y) of
              Inl err \<Rightarrow> Inl (Wrapf ''unmarshal to scheduled job'' err)
            | Inr m \<Rightarrow> Inr (ScheduledJob m))"
    by (simp add: UnmarshalWorkload_def workload_types_distinct)
next
  fix am
  assume "Unmarshal_Workload y inp \<lparr>Name = None, Type = None\<rparr> = Inr am"
    and "StringValue (Type am) \<notin>
            {LoadBalancedWebServiceType, BackendServiceType, ScheduledJobType, WorkerServiceType}"
  then show "UnmarshalWorkload y inp = Inl (ErrInvalidWorkloadType (StringValue (Type am)))"
    by (simp add: UnmarshalWorkload_def)
qed

text \<open>
  Six documents: a backend service with a health check that gives the retries only,
  which comes back backfilled; a load balanced web service; a scheduled job; a
  backend service whose build field is a sequence; one of an unknown type; one that
  does not parse.
\<close>

theorem UnmarshalWorkload_dispatch_witness:
  "UnmarshalWorkload retries_only_yaml
       ''{type: backend-service, image: {healthcheck: {retries: 3}}}''
     = Inr (BackendServiceManifest retries_only_service)
   \<and> UnmarshalWorkload (document_yaml (typed LoadBalancedWebServiceType) Inr) ''{type: web-service}''
     = Inr (LoadBalancedWebService ())
   \<and> UnmarshalWorkload (document_yaml (typed ScheduledJobType) Inr) ''{type: scheduled-job}''
     = Inr (ScheduledJob ())
   \<and> UnmarshalWorkload sequence_build_yaml
       ''{name: api, type: backend-service, image: {build: [1, 2]}}''
     = Inl (Wrapf ''unmarshal to backend service'' errUnmarshalBuildOpts)
   \<and> UnmarshalWorkload (document_yaml (typed ''lambda'') Inr) ''{type: lambda}''
     = Inl (ErrInvalidWorkloadType ''lambda'')
   \<and> UnmarshalWorkload
       (document_yaml (\<lambda>w. Inl (YamlError ''yaml: did not find expected node content'')) Inr) ''{''
     = Inl (Wrapf ''unmarshal to workload manifest''
              (YamlError ''yaml: did not find expected node content''))"
proof (intro conjI)
  note doc = document_yaml_def typed_def StringValue_def
  from UnmarshalWorkload_dispatch
         [of retries_only_yaml "''{type: backend-service, image: {healthcheck: {retries: 3}}}''",
          THEN conjunct2, rule_format,
          of "\<lparr>Name = None, Type = Some BackendServiceType\<rparr>", THEN conjunct2, THEN conjunct1]
  show "UnmarshalWorkload retries_only_yaml
       ''{type: backend-service, image: {healthcheck: {retries: 3}}}''
     = Inr (BackendServiceManifest retries_only_service)"
    by (simp add: doc retries_only_yaml_def retries_only_backfilled retries_only_service_def
          newDefaultBackendService_def)
  from UnmarshalWorkload_dispatch
         [of "document_yaml (typed LoadBalancedWebServiceType) Inr" "''{type: web-service}''",
          THEN conjunct2, rule_format,
          of "\<lparr>Name = None, Type = Some LoadBalancedWebServiceType\<rparr>", THEN conjunct1]
  show "UnmarshalWorkload (document_yaml (typed LoadBalancedWebServiceType) Inr)
          ''{type: web-service}'' = Inr (LoadBalancedWebService ())"
    by (simp add: doc)
  from UnmarshalWorkload_dispatch
         [of "document_yaml (typed ScheduledJobType) Inr" "''{type: scheduled-job}''",
          THEN conjunct2, rule_format,
          of "\<lparr>Name = None, Type = Some ScheduledJobType\<rparr>",
          THEN conjunct2, THEN conjunct2, THEN conjunct1]
  show "UnmarshalWorkload (document_yaml (typed ScheduledJobType) Inr) ''{type: scheduled-job}''
          = Inr (ScheduledJob ())"
    by (simp add: doc)
  have "Unmarshal_BackendService sequence_build_yaml
          ''{name: api, type: backend-service, image: {build: [1, 2]}}'' newDefaultBackendService
        = Inl errUnmarshalBuildOpts"
    by (simp add: sequence_build_yaml_def document_yaml_def newDefaultBackendService_def
          emptyImage_def emptyBuild_def emptyDockerBuildArgs_def
          BuildArgsOrString_UnmarshalYAML_def DockerBuildArgs_isEmpty_def)
  with UnmarshalWorkload_dispatch
         [of sequence_build_yaml "''{name: api, type: backend-service, image: {build: [1, 2]}}''",
          THEN conjunct2, rule_format,
          of "\<lparr>Name = Some ''api'', Type = Some BackendServiceType\<rparr>",
          THEN conjunct2, THEN conjunct1]
  show "UnmarshalWorkload sequence_build_yaml
       ''{name: api, type: backend-service, image: {build: [1, 2]}}''
     = Inl (Wrapf ''unmarshal to backend service'' errUnmarshalBuildOpts)"
    by (simp add: sequence_build_yaml_def doc)
  from UnmarshalWorkload_dispatch
         [of "document_yaml (typed ''lambda'') Inr" "''{type: lambda}''",
          THEN conjunct2, rule_format,
          of "\<lparr>Name = None, Type = Some ''lambda''\<rparr>",
          THEN conjunct2, THEN conjunct2, THEN conjunct2]
  show "UnmarshalWorkload (document_yaml (typed ''lambda'') Inr) ''{type: lambda}''
          = Inl (ErrInvalidWorkloadType ''lambda'')"
    by (simp add: doc LoadBalancedWebServiceType_def BackendServiceType_def
          ScheduledJobType_def WorkerServiceType_def)
  from UnmarshalWorkload_dispatch
         [of "document_yaml (\<lambda>w. Inl (YamlError ''yaml: did not find expected node content'')) Inr"
             "''{''", THEN conjunct1, rule_format]
  show "UnmarshalWorkload
       (document_yaml (\<lambda>w. Inl (YamlError ''yaml: did not find expected node content'')) Inr) ''{''
     = Inl (Wrapf ''unmarshal to workload manifest''
              (YamlError ''yaml: did not find expected node content''))"
    by (simp add: doc)
qed

text \<open>
  The switch of \<^verbatim>\<open>UnmarshalWorkload\<close> has no case for the worker service: a document
  that declares it is answered with the invalid-type error.
\<close>

lemma UnmarshalWorkload_worker_service:
  "Unmarshal_Workload y inp \<lparr>Name = None, Type = None\<rparr> = Inr am \<Longrightarrow>
   Type am = Some WorkerServiceType \<Longrightarrow>
   UnmarshalWorkload y inp = Inl (ErrInvalidWorkloadType WorkerServiceType)"
  by (simp add: UnmarshalWorkload_def StringValue_def workload_types_distinct)

subsection \<open>Applying an environment\<close>

lemma merge_ptr_None [simp]: "merge_ptr dst None = dst"
  by (simp add: merge_ptr_def)

lemma merge_ptr_Some [simp]: "merge_ptr dst (Some v) = Some v"
  by (simp add: merge_ptr_def)

lemma merge_ptr_same [simp]: "merge_ptr p p = p"
  by (cases p) simp_all

lemma merge_Count_empty: "Count_IsEmpty src \<Longrightarrow> merge_Count dst src = dst"
  by (simp add: merge_Count_def merge_Autoscaling_def Count_IsEmpty_def Autoscaling_IsEmpty_def)

lemma merge_Count_same: "merge_Count c c = c"
  by (simp add: merge_Count_def merge_Autoscaling_def)

lemma BackendService_ApplyEnv_overlay:
  assumes "Environments s = Some m" and "m e = Some (Some ov)"
  shows "BackendService_ApplyEnv s e =
     Inr \<lparr>Workload = Workload s,
          BackendServiceConfig =
            merge_BackendServiceConfig
              (if Count_IsEmpty (Count (TaskConfig ov)) then BackendServiceConfig s
               else (BackendServiceConfig s)\<lparr>TaskConfig :=
                      (TaskConfig (BackendServiceConfig s))\<lparr>Count := Count (TaskConfig ov)\<rparr>\<rparr>)
              ov,
          Environments = None\<rparr>"
  using assms
  by (simp add: BackendService_ApplyEnv_def mergo_Merge_BackendService_def merge_Workload_def
        Let_def)

lemma transformImage_result:
  "transformImage dst src =
     Inr \<lparr>Build = (if \<not> BuildArgsOrString_IsZero (Build src) \<or> Location src \<noteq> None
                   then Build src else Build dst),
          Location = (if \<not> BuildArgsOrString_IsZero (Build src) \<or> Location src \<noteq> None
                      then Location src else Location dst),
          DockerLabels =
            shared_map (DockerLabels dst) (merge_upsert (DockerLabels dst) (DockerLabels src)),
          DependsOn =
            shared_map (DependsOn dst) (merge_upsert (DependsOn dst) (DependsOn src))\<rparr>"
  by (simp add: transformImage_def mergo_Merge_Image_def merge_Image_def Let_def)

lemma WorkerService_ApplyEnv_overlay:
  assumes "Environments_w s = Some m" and "m e = Some (Some ov)"
  shows "\<exists>img. transformImage (Image_w (ImageConfig_w (WorkerServiceConfig s)))
                  (Image_w (ImageConfig_w ov)) = Inr img
     \<and> WorkerService_ApplyEnv s e =
       Inr \<lparr>Workload_w = Workload_w s,
            WorkerServiceConfig =
              \<lparr>ImageConfig_w =
                 \<lparr>Image_w = img,
                  HealthCheck_w =
                    merge_ptr (HealthCheck_w (ImageConfig_w (WorkerServiceConfig s)))
                      (HealthCheck_w (ImageConfig_w ov))\<rparr>,
               TaskConfig_w =
                 merge_TaskConfig
                   (if Count_IsEmpty (Count (TaskConfig_w ov))
                    then TaskConfig_w (WorkerServiceConfig s)
                    else (TaskConfig_w (WorkerServiceConfig s))\<lparr>Count := Count (TaskConfig_w ov)\<rparr>)
                   (TaskConfig_w ov),
               Logging_w = merge_ptr (Logging_w (WorkerServiceConfig s)) (Logging_w ov),
               Sidecars_w = merge_ptr (Sidecars_w (WorkerServiceConfig s)) (Sidecars_w ov),
               Subscribe = merge_ptr (Subscribe (WorkerServiceConfig s)) (Subscribe ov),
               Network_w = merge_ptr (Network_w (WorkerServiceConfig s)) (Network_w ov)\<rparr>,
            Environments_w = None\<rparr>"
  using assms
  by (simp add: WorkerService_ApplyEnv_def mergo_Merge_WorkerService_def
        merge_WorkerServiceConfig_def merge_Workload_def transformImage_result Let_def)

text \<open>
  C1, as stated, has the value returned for an environment without overlay come with
  its environments map cleared. \<^verbatim>\<open>ApplyEnv\<close> returns its copy of \<open>s\<close> as it is on that
  path: the service below has an overlay for \<^verbatim>\<open>prod\<close>, and asked for \<^verbatim>\<open>test\<close> it is
  returned with the overlay for \<^verbatim>\<open>prod\<close> still in its map.
\<close>

theorem BackendService_ApplyEnv_keeps_environments:
  "BackendService_ApplyEnv built_service ''test'' = Inr built_service
   \<and> Environments built_service = Some [''prod'' \<mapsto> Some location_overlay]
   \<and> Environments built_service \<noteq> None"
  by (simp add: BackendService_ApplyEnv_def built_service_def)

text \<open>
  C1, amended. When \<open>s\<close> has no entry for the environment, or the entry is \<^verbatim>\<open>nil\<close>,
  \<^verbatim>\<open>ApplyEnv\<close> succeeds and returns a value equal to \<open>s\<close>, its environments map
  included: the map is not cleared on this path. This holds for the backend service
  and for the worker service. (The receiver is a copy; the caller's value is not
  written.)
\<close>

theorem ApplyEnv_identity:
  "((Environments s = None \<or> (\<exists>m. Environments s = Some m \<and> (m e = None \<or> m e = Some None)))
      \<longrightarrow> BackendService_ApplyEnv s e = Inr s)
   \<and> ((Environments_w w = None
        \<or> (\<exists>m. Environments_w w = Some m \<and> (m e = None \<or> m e = Some None)))
      \<longrightarrow> WorkerService_ApplyEnv w e = Inr w)"
  by (auto simp: BackendService_ApplyEnv_def WorkerService_ApplyEnv_def)

theorem ApplyEnv_identity_witness:
  "BackendService_ApplyEnv newDefaultBackendService ''test'' = Inr newDefaultBackendService
   \<and> BackendService_ApplyEnv built_service ''test'' = Inr built_service
   \<and> WorkerService_ApplyEnv (newDefaultWorkerService\<lparr>Environments_w := Some [''test'' \<mapsto> None]\<rparr>)
        ''test''
     = Inr (newDefaultWorkerService\<lparr>Environments_w := Some [''test'' \<mapsto> None]\<rparr>)"
proof (intro conjI)
  have "Environments newDefaultBackendService = None"
    by (simp add: newDefaultBackendService_def)
  with ApplyEnv_identity [of newDefaultBackendService "''test''", THEN conjunct1]
  show "BackendService_ApplyEnv newDefaultBackendService ''test'' = Inr newDefaultBackendService"
    by simp
  have "Environments built_service = Some [''prod'' \<mapsto> Some location_overlay]"
    by (simp add: built_service_def)
  with ApplyEnv_identity [of built_service "''test''", THEN conjunct1]
  show "BackendService_ApplyEnv built_service ''test'' = Inr built_service"
    by simp
  let ?w = "newDefaultWorkerService\<lparr>Environments_w := Some [''test'' \<mapsto> None]\<rparr>"
  from ApplyEnv_identity [of _ "''test''" ?w, THEN conjunct2]
  show "WorkerService_ApplyEnv ?w ''test'' = Inr ?w"
    by simp
qed

text \<open>
  C2. For an environment with an overlay, the resolved manifest's count is the base's
  count when the overlay's count is empty, and the overlay's count, whole, when it is
  not. This holds for the backend service and for the worker service, whatever the
  base's count.
\<close>

theorem ApplyEnv_count:
  "(\<forall>m ov. Environments s = Some m \<and> m e = Some (Some ov) \<longrightarrow>
      (\<exists>r. BackendService_ApplyEnv s e = Inr r
         \<and> Count (TaskConfig (BackendServiceConfig r)) =
             (if Count_IsEmpty (Count (TaskConfig ov))
              then Count (TaskConfig (BackendServiceConfig s)) else Count (TaskConfig ov))))
   \<and> (\<forall>m ov. Environments_w w = Some m \<and> m e = Some (Some ov) \<longrightarrow>
      (\<exists>r. WorkerService_ApplyEnv w e = Inr r
         \<and> Count (TaskConfig_w (WorkerServiceConfig r)) =
             (if Count_IsEmpty (Count (TaskConfig_w ov))
              then Count (TaskConfig_w (WorkerServiceConfig w)) else Count (TaskConfig_w ov))))"
proof (intro conjI allI impI)
  fix m ov
  assume "Environments s = Some m \<and> m e = Some (Some ov)"
  then have "Environments s = Some m" and "m e = Some (Some ov)"
    by simp_all
  from BackendService_ApplyEnv_overlay [OF this]
  show "\<exists>r. BackendService_ApplyEnv s e = Inr r
         \<and> Count (TaskConfig (BackendServiceConfig r)) =
             (if Count_IsEmpty (Count (TaskConfig ov))
              then Count (TaskConfig (BackendServiceConfig s)) else Count (TaskConfig ov))"
    by (simp add: merge_BackendServiceConfig_def merge_TaskConfig_def merge_Count_empty
          merge_Count_same)
next
  fix m ov
  assume "Environments_w w = Some m \<and> m e = Some (Some ov)"
  then have "Environments_w w = Some m" and "m e = Some (Some ov)"
    by simp_all
  from WorkerService_ApplyEnv_overlay [OF this]
  show "\<exists>r. WorkerService_ApplyEnv w e = Inr r
         \<and> Count (TaskConfig_w (WorkerServiceConfig r)) =
             (if Count_IsEmpty (Count (TaskConfig_w ov))
              then Count (TaskConfig_w (WorkerServiceConfig w)) else Count (TaskConfig_w ov))"
    by (auto simp: merge_TaskConfig_def merge_Count_empty merge_Count_same)
qed

text \<open>
  Three replicas stay three under the overlay that sets the CPU only, and become the
  autoscaling range, with no fixed value left, under the overlay that sets the range.
\<close>

theorem ApplyEnv_count_witness:
  "(\<exists>r. BackendService_ApplyEnv replicated_backend ''test'' = Inr r
      \<and> Count (TaskConfig (BackendServiceConfig r)) =
          \<lparr>Value = Some 3, Autoscaling = emptyAutoscaling\<rparr>)
   \<and> (\<exists>r. BackendService_ApplyEnv replicated_backend ''prod'' = Inr r
      \<and> Count (TaskConfig (BackendServiceConfig r)) = range_count)
   \<and> (\<exists>r. WorkerService_ApplyEnv replicated_worker ''test'' = Inr r
      \<and> Count (TaskConfig_w (WorkerServiceConfig r)) =
          \<lparr>Value = Some 3, Autoscaling = emptyAutoscaling\<rparr>)
   \<and> (\<exists>r. WorkerService_ApplyEnv replicated_worker ''prod'' = Inr r
      \<and> Count (TaskConfig_w (WorkerServiceConfig r)) = range_count)"
proof (intro conjI)
  note ex = replicated_backend_def replicated_worker_def three_replicas_def cpu_overlay_def
    range_overlay_def emptyTaskConfig_def
  have empty: "Count_IsEmpty emptyCount" and range: "\<not> Count_IsEmpty range_count"
    by (simp_all add: Count_IsEmpty_def Autoscaling_IsEmpty_def emptyCount_def
          emptyAutoscaling_def range_count_def)
  let ?bt = "emptyBackendServiceConfig\<lparr>TaskConfig := cpu_overlay\<rparr>"
  let ?bp = "emptyBackendServiceConfig\<lparr>TaskConfig := range_overlay\<rparr>"
  let ?wt = "emptyWorkerServiceConfig\<lparr>TaskConfig_w := cpu_overlay\<rparr>"
  let ?wp = "emptyWorkerServiceConfig\<lparr>TaskConfig_w := range_overlay\<rparr>"
  from ApplyEnv_count [of replicated_backend "''test''", THEN conjunct1, rule_format,
         of "[''test'' \<mapsto> Some ?bt, ''prod'' \<mapsto> Some ?bp]" ?bt] empty
  show "\<exists>r. BackendService_ApplyEnv replicated_backend ''test'' = Inr r
      \<and> Count (TaskConfig (BackendServiceConfig r)) =
          \<lparr>Value = Some 3, Autoscaling = emptyAutoscaling\<rparr>"
    by (simp add: ex)
  from ApplyEnv_count [of replicated_backend "''prod''", THEN conjunct1, rule_format,
         of "[''test'' \<mapsto> Some ?bt, ''prod'' \<mapsto> Some ?bp]" ?bp] range
  show "\<exists>r. BackendService_ApplyEnv replicated_backend ''prod'' = Inr r
      \<and> Count (TaskConfig (BackendServiceConfig r)) = range_count"
    by (simp add: ex)
  from ApplyEnv_count [of _ "''test''" replicated_worker, THEN conjunct2, rule_format,
         of "[''test'' \<mapsto> Some ?wt, ''prod'' \<mapsto> Some ?wp]" ?wt] empty
  show "\<exists>r. WorkerService_ApplyEnv replicated_worker ''test'' = Inr r
      \<and> Count (TaskConfig_w (WorkerServiceConfig r)) =
          \<lparr>Value = Some 3, Autoscaling = emptyAutoscaling\<rparr>"
    by (simp add: ex)
  from ApplyEnv_count [of _ "''prod''" replicated_worker, THEN conjunct2, rule_format,
         of "[''test'' \<mapsto> Some ?wt, ''prod'' \<mapsto> Some ?wp]" ?wp] range
  show "\<exists>r. WorkerService_ApplyEnv replicated_worker ''prod'' = Inr r
      \<and> Count (TaskConfig_w (WorkerServiceConfig r)) = range_count"
    by (simp add: ex)
qed

text \<open>
  The worker service's merge runs \<^verbatim>\<open>transformImage\<close>, which replaces \<^verbatim>\<open>Build\<close> and
  \<^verbatim>\<open>Location\<close> together: when the overlay sets one of the two, the resolved image has
  the overlay's values for both, and when it sets neither, the base's values.
\<close>

lemma WorkerService_ApplyEnv_image_atomic:
  assumes "Environments_w w = Some m" and "m e = Some (Some ov)"
  shows "\<exists>r. WorkerService_ApplyEnv w e = Inr r
     \<and> (Build (Image_w (ImageConfig_w (WorkerServiceConfig r))),
        Location (Image_w (ImageConfig_w (WorkerServiceConfig r)))) =
       (if \<not> BuildArgsOrString_IsZero (Build (Image_w (ImageConfig_w ov)))
           \<or> Location (Image_w (ImageConfig_w ov)) \<noteq> None
        then (Build (Image_w (ImageConfig_w ov)), Location (Image_w (ImageConfig_w ov)))
        else (Build (Image_w (ImageConfig_w (WorkerServiceConfig w))),
              Location (Image_w (ImageConfig_w (WorkerServiceConfig w)))))"
  using WorkerService_ApplyEnv_overlay [OF assms]
  by (auto simp: transformImage_result)

text \<open>
  C3. \<^verbatim>\<open>BackendService.ApplyEnv\<close> calls the merge without the image transformer that
  \<^verbatim>\<open>WorkerService.ApplyEnv\<close> passes, so \<^verbatim>\<open>Build\<close> and \<^verbatim>\<open>Location\<close> are merged one
  by one. For the service built from \<^verbatim>\<open>./Dockerfile\<close> whose \<^verbatim>\<open>prod\<close> overlay sets the
  location \<^verbatim>\<open>nginx\<close>, the resolved image has the overlay's location next to the base's
  build, where the claim has the overlay's (zero) build; the image-source check
  rejects the resolved image.
\<close>

theorem BackendService_ApplyEnv_stale_build:
  "BackendService_ApplyEnv built_service ''prod'' =
     Inr (built_service
       \<lparr>BackendServiceConfig :=
          (BackendServiceConfig built_service)\<lparr>ImageConfig :=
             \<lparr>Image = emptyImage\<lparr>Build := dockerfile_build, Location := Some ''nginx''\<rparr>,
              Port = None, HealthCheck = None\<rparr>\<rparr>,
        Environments := None\<rparr>)
   \<and> Build (Image (ImageConfig location_overlay)) = emptyBuild
   \<and> requiresBuild (emptyImage\<lparr>Build := dockerfile_build, Location := Some ''nginx''\<rparr>)
       = Inl errImageSource"
proof (intro conjI)
  have env: "Environments built_service = Some [''prod'' \<mapsto> Some location_overlay]"
    "[''prod'' \<mapsto> Some location_overlay] ''prod'' = Some (Some location_overlay)"
    by (simp_all add: built_service_def)
  have empty: "Count_IsEmpty (Count (TaskConfig location_overlay))"
    by (simp add: location_overlay_def emptyBackendServiceConfig_def emptyTaskConfig_def
          emptyCount_def emptyAutoscaling_def Count_IsEmpty_def Autoscaling_IsEmpty_def)
  have merged: "merge_BackendServiceConfig (BackendServiceConfig built_service) location_overlay =
     (BackendServiceConfig built_service)\<lparr>ImageConfig :=
        \<lparr>Image = emptyImage\<lparr>Build := dockerfile_build, Location := Some ''nginx''\<rparr>,
         Port = None, HealthCheck = None\<rparr>\<rparr>"
    by (simp add: merge_BackendServiceConfig_def merge_Image_def merge_BuildArgsOrString_def
          merge_DockerBuildArgs_def merge_TaskConfig_def merge_Count_def merge_Autoscaling_def
          merge_ExecuteCommand_def merge_upsert_def
          built_service_def location_overlay_def dockerfile_build_def
          newDefaultBackendService_def newDefaultTaskConfig_def emptyBackendServiceConfig_def
          emptyTaskConfig_def emptyCount_def emptyAutoscaling_def emptyImage_def emptyBuild_def
          emptyDockerBuildArgs_def)
  show "BackendService_ApplyEnv built_service ''prod'' =
     Inr (built_service
       \<lparr>BackendServiceConfig :=
          (BackendServiceConfig built_service)\<lparr>ImageConfig :=
             \<lparr>Image = emptyImage\<lparr>Build := dockerfile_build, Location := Some ''nginx''\<rparr>,
              Port = None, HealthCheck = None\<rparr>\<rparr>,
        Environments := None\<rparr>)"
    unfolding BackendService_ApplyEnv_overlay [OF env] using empty merged
    by (simp add: built_service_def)
  show "Build (Image (ImageConfig location_overlay)) = emptyBuild"
    by (simp add: location_overlay_def emptyImage_def)
  show "requiresBuild (emptyImage\<lparr>Build := dockerfile_build, Location := Some ''nginx''\<rparr>)
       = Inl errImageSource"
    by (simp add: requiresBuild_def BuildArgsOrString_isEmpty_def DockerBuildArgs_isEmpty_def
          dockerfile_build_def emptyBuild_def emptyDockerBuildArgs_def emptyImage_def)
qed

end
